theory Spec2Isabelle
  imports Complex_Main
begin

section \<open>A model of the numpy arrays the simulation computes with\<close>

text \<open>
  The simulation (\<^verbatim>\<open>SPH_Simulation.py\<close>) is written with numpy arrays and broadcasting.
  The model keeps both: an array is a shape together with an element function on index
  lists, and every operation checks the shapes of its operands the way numpy does.

  Numbers are real numbers: rounding, overflow and underflow of IEEE doubles are outside
  the model. Where numpy divides by zero it only warns and stores \<open>inf\<close> or \<open>nan\<close>;
  the reals have neither, so there the model stops with \<open>NonFinite\<close>. \<open>ValueError\<close> and
  \<open>IndexError\<close> are numpy's exceptions of the same names.
\<close>

datatype np_error = ValueError | IndexError | NonFinite

record ndarray =
  shape :: "nat list"
  elems :: "nat list \<Rightarrow> real"

definition rbind :: "np_error + 'a \<Rightarrow> ('a \<Rightarrow> np_error + 'b) \<Rightarrow> np_error + 'b" where
  "rbind m f = (case m of Inl e \<Rightarrow> Inl e | Inr x \<Rightarrow> f x)"

text \<open>A Python float (or a numpy scalar) is the array of shape \<open>()\<close>.\<close>

definition scalar :: "real \<Rightarrow> ndarray" where
  "scalar x = \<lparr>shape = [], elems = (\<lambda>idx. x)\<rparr>"

text \<open>\<open>np.array\<close> of a list of numbers, and of a list of 2D points (shape \<open>(N, 2)\<close>).\<close>

definition arr1 :: "real list \<Rightarrow> ndarray" where
  "arr1 xs = \<lparr>shape = [length xs], elems = (\<lambda>idx. case idx of [] \<Rightarrow> 0 | i # r \<Rightarrow> xs ! i)\<rparr>"

definition coord :: "real \<times> real \<Rightarrow> nat \<Rightarrow> real" where
  "coord v c = (if c = 0 then fst v else snd v)"

definition vecs :: "(real \<times> real) list \<Rightarrow> ndarray" where
  "vecs ps = \<lparr>shape = [length ps, 2],
     elems = (\<lambda>idx. case idx of i # c # r \<Rightarrow> coord (ps ! i) c | _ \<Rightarrow> 0)\<rparr>"

subsection \<open>Broadcasting\<close>

text \<open>
  Two dimensions are compatible when they are equal or one of them is 1; shapes are
  aligned at their last dimension and the shorter one is padded in front.
\<close>

definition bdim :: "nat \<Rightarrow> nat \<Rightarrow> nat" where
  "bdim x y = (if x = 1 then y else x)"

fun bc_rev :: "nat list \<Rightarrow> nat list \<Rightarrow> nat list option" where
  "bc_rev [] ys = Some ys"
| "bc_rev (x # xs) [] = Some (x # xs)"
| "bc_rev (x # xs) (y # ys) =
     (if x = y \<or> x = 1 \<or> y = 1 then map_option ((#) (bdim x y)) (bc_rev xs ys) else None)"

definition broadcast_shapes :: "nat list \<Rightarrow> nat list \<Rightarrow> nat list option" where
  "broadcast_shapes s t = map_option rev (bc_rev (rev s) (rev t))"

text \<open>
  The element of an operand of shape \<open>s\<close> that the result's index \<open>idx\<close> reads: the last
  \<open>length s\<close> positions of \<open>idx\<close>, and position 0 along every dimension of length 1.
\<close>

definition bidx :: "nat \<Rightarrow> nat \<Rightarrow> nat" where
  "bidx d i = (if d = 1 then 0 else i)"

definition proj :: "nat list \<Rightarrow> nat list \<Rightarrow> nat list" where
  "proj s idx = map2 bidx s (drop (length idx - length s) idx)"

text \<open>All indices of an array of shape \<open>s\<close>, in row-major order.\<close>

definition indices :: "nat list \<Rightarrow> nat list list" where
  "indices s = product_lists (map (\<lambda>n. [0..<n]) s)"

definition np_binop :: "(real \<Rightarrow> real \<Rightarrow> real) \<Rightarrow> ndarray \<Rightarrow> ndarray \<Rightarrow> np_error + ndarray" where
  "np_binop f a b =
     (case broadcast_shapes (shape a) (shape b) of
        None \<Rightarrow> Inl ValueError
      | Some s \<Rightarrow> Inr \<lparr>shape = s,
          elems = (\<lambda>idx. f (elems a (proj (shape a) idx)) (elems b (proj (shape b) idx)))\<rparr>)"

definition np_add :: "ndarray \<Rightarrow> ndarray \<Rightarrow> np_error + ndarray" where
  "np_add = np_binop (+)"

definition np_sub :: "ndarray \<Rightarrow> ndarray \<Rightarrow> np_error + ndarray" where
  "np_sub = np_binop (-)"

definition np_mul :: "ndarray \<Rightarrow> ndarray \<Rightarrow> np_error + ndarray" where
  "np_mul = np_binop (*)"

definition np_maximum :: "ndarray \<Rightarrow> ndarray \<Rightarrow> np_error + ndarray" where
  "np_maximum = np_binop max"

text \<open>
  Division: a zero divisor at an index of the result is where numpy stores \<open>inf\<close> or
  \<open>nan\<close>; the model stops there.
\<close>

definition np_div :: "ndarray \<Rightarrow> ndarray \<Rightarrow> np_error + ndarray" where
  "np_div a b =
     (case broadcast_shapes (shape a) (shape b) of
        None \<Rightarrow> Inl ValueError
      | Some s \<Rightarrow>
          if list_ex (\<lambda>idx. elems b (proj (shape b) idx) = 0) (indices s) then Inl NonFinite
          else Inr \<lparr>shape = s,
            elems = (\<lambda>idx. elems a (proj (shape a) idx) / elems b (proj (shape b) idx))\<rparr>)"

definition np_map :: "(real \<Rightarrow> real) \<Rightarrow> ndarray \<Rightarrow> ndarray" where
  "np_map f a = \<lparr>shape = shape a, elems = (\<lambda>idx. f (elems a idx))\<rparr>"

text \<open>\<open>-a\<close>, \<open>a ** 2\<close> and \<open>np.exp(a)\<close>.\<close>

definition np_neg :: "ndarray \<Rightarrow> ndarray" where
  "np_neg = np_map uminus"

definition np_square :: "ndarray \<Rightarrow> ndarray" where
  "np_square = np_map (\<lambda>x. x ^ 2)"

definition np_exp :: "ndarray \<Rightarrow> ndarray" where
  "np_exp = np_map exp"

subsection \<open>Indexing with \<open>np.newaxis\<close>, reductions\<close>

text \<open>
  \<open>newaxis_at k r a\<close> is an index expression with \<open>r\<close> colons and one \<open>np.newaxis\<close> after
  the first \<open>k\<close> of them: \<open>a[:, np.newaxis, :]\<close> is \<open>newaxis_at 1 2 a\<close>. numpy raises
  IndexError when the array has fewer than \<open>r\<close> dimensions.
\<close>

definition newaxis_at :: "nat \<Rightarrow> nat \<Rightarrow> ndarray \<Rightarrow> np_error + ndarray" where
  "newaxis_at k r a =
     (if length (shape a) < r then Inl IndexError
      else Inr \<lparr>shape = take k (shape a) @ [1] @ drop k (shape a),
        elems = (\<lambda>idx. elems a (take k idx @ drop (Suc k) idx))\<rparr>)"

text \<open>\<open>np.sum(a, axis=ax)\<close>; an axis the array does not have is an error.\<close>

definition np_sum :: "nat \<Rightarrow> ndarray \<Rightarrow> np_error + ndarray" where
  "np_sum ax a =
     (if length (shape a) \<le> ax then Inl ValueError
      else Inr \<lparr>shape = take ax (shape a) @ drop (Suc ax) (shape a),
        elems = (\<lambda>idx. \<Sum>j\<leftarrow>[0..<shape a ! ax]. elems a (take ax idx @ [j] @ drop ax idx))\<rparr>)"

text \<open>\<open>np.linalg.norm(a, axis=-1)\<close>: the Euclidean norm along the last axis.\<close>

definition np_norm_last :: "ndarray \<Rightarrow> np_error + ndarray" where
  "np_norm_last a =
     (if shape a = [] then Inl ValueError
      else Inr \<lparr>shape = butlast (shape a),
        elems = (\<lambda>idx. sqrt (\<Sum>c\<leftarrow>[0..<last (shape a)]. (elems a (idx @ [c])) ^ 2))\<rparr>)"

text \<open>
  A slice bound \<open>n\<close> on an axis of length \<open>len\<close>: Python counts a negative bound from the
  end and clamps both ways.
\<close>

definition slice_bound :: "int \<Rightarrow> nat \<Rightarrow> nat" where
  "slice_bound n len = (if n < 0 then nat (max 0 (int len + n)) else min (nat n) len)"

text \<open>\<open>a[:n]\<close> on the first axis.\<close>

definition slice_prefix :: "ndarray \<Rightarrow> int \<Rightarrow> np_error + ndarray" where
  "slice_prefix a n =
     (case shape a of
        [] \<Rightarrow> Inl IndexError
      | len # rest \<Rightarrow> Inr \<lparr>shape = slice_bound n len # rest, elems = elems a\<rparr>)"

text \<open>
  \<open>a[:n] += b\<close>: the right-hand side must broadcast to the shape of the slice, and only
  the rows of the slice are written.
\<close>

definition iadd_prefix :: "ndarray \<Rightarrow> int \<Rightarrow> ndarray \<Rightarrow> np_error + ndarray" where
  "iadd_prefix a n b =
     (case shape a of
        [] \<Rightarrow> Inl IndexError
      | len # rest \<Rightarrow>
          if broadcast_shapes (slice_bound n len # rest) (shape b) \<noteq> Some (slice_bound n len # rest)
          then Inl ValueError
          else Inr \<lparr>shape = shape a,
            elems = (\<lambda>idx. case idx of
                [] \<Rightarrow> elems a idx
              | i # r \<Rightarrow> if i < slice_bound n len
                  then elems a idx + elems b (proj (shape b) idx) else elems a idx)\<rparr>)"

text \<open>Reading a result: the element at an index, when there is a result.\<close>

definition elem_at :: "np_error + ndarray \<Rightarrow> nat list \<Rightarrow> real option" where
  "elem_at r idx = (case r of Inl e \<Rightarrow> None | Inr a \<Rightarrow> Some (elems a idx))"

definition shape_of :: "np_error + ndarray \<Rightarrow> nat list option" where
  "shape_of r = (case r of Inl e \<Rightarrow> None | Inr a \<Rightarrow> Some (shape a))"

section \<open>The particle system\<close>

record ParticleList =
  masses :: ndarray
  positions :: ndarray
  velocities :: ndarray
  h :: real
  k :: real
  num_particles :: nat
  num_fluid_particles :: int
  rest_densities :: ndarray

text \<open>
  \<^verbatim>\<open>gaussian(d, h)\<close>:
  \<^verbatim>\<open>1 / (h * np.sqrt(2 * np.pi)) * np.exp(-((np.linalg.norm(d, axis=-1)) ** 2) / (2 * (h**2)))\<close>
\<close>

definition gaussian :: "ndarray \<Rightarrow> real \<Rightarrow> np_error + ndarray" where
  "gaussian d hh =
     rbind (np_div (scalar 1) (scalar (hh * sqrt (2 * pi)))) (\<lambda>coef.
     rbind (np_norm_last d) (\<lambda>dnorm.
     rbind (np_div (np_neg (np_square dnorm)) (scalar (2 * hh ^ 2))) (\<lambda>arg.
     np_mul coef (np_exp arg))))"

text \<open>
  \<^verbatim>\<open>reconstruct_density(particles)\<close>. The array of zeros the source creates first is
  overwritten before it is read.
\<close>

definition reconstruct_density :: "ParticleList \<Rightarrow> np_error + ndarray" where
  "reconstruct_density particles =
     rbind (newaxis_at 1 2 (positions particles)) (\<lambda>pos_i.
     rbind (newaxis_at 0 2 (positions particles)) (\<lambda>pos_j.
     rbind (np_sub pos_i pos_j) (\<lambda>positions_diff.
     rbind (newaxis_at 0 1 (masses particles)) (\<lambda>m.
     rbind (gaussian positions_diff (h particles)) (\<lambda>w.
     rbind (np_mul m w) (\<lambda>terms.
     np_sum 1 terms))))))"

text \<open>\<^verbatim>\<open>eval_pressure(particles, densities)\<close>:
  \<^verbatim>\<open>particles.k * np.maximum((densities / particles.rest_densities) - 1, 0)\<close>\<close>

definition eval_pressure :: "ParticleList \<Rightarrow> ndarray \<Rightarrow> np_error + ndarray" where
  "eval_pressure particles densities =
     rbind (np_div densities (rest_densities particles)) (\<lambda>ratio.
     rbind (np_sub ratio (scalar 1)) (\<lambda>excess.
     rbind (np_maximum excess (scalar 0)) (\<lambda>clipped.
     np_mul (scalar (k particles)) clipped)))"

text \<open>
  \<^verbatim>\<open>gaussian_grad(d, h)\<close>:
  \<^verbatim>\<open>dnorm = np.linalg.norm(d, axis=-1)[:, :, np.newaxis]\<close>
  \<^verbatim>\<open>return -1 / ((h**3) * np.sqrt(2 * np.pi)) * np.exp(-(dnorm**2) / (2 * (h**2))) * d\<close>
\<close>

definition gaussian_grad :: "ndarray \<Rightarrow> real \<Rightarrow> np_error + ndarray" where
  "gaussian_grad d hh =
     rbind (np_norm_last d) (\<lambda>nrm.
     rbind (newaxis_at 2 2 nrm) (\<lambda>dnorm.
     rbind (np_div (scalar (- 1)) (scalar (hh ^ 3 * sqrt (2 * pi)))) (\<lambda>coef.
     rbind (np_div (np_neg (np_square dnorm)) (scalar (2 * hh ^ 2))) (\<lambda>arg.
     rbind (np_mul coef (np_exp arg)) (\<lambda>w.
     np_mul w d)))))"

text \<open>
  \<^verbatim>\<open>eval_pressure_grad(particles, densities)\<close>. Every column array is written
  \<^verbatim>\<open>x[:, np.newaxis]\<close>, of shape \<open>(N, 1)\<close>, and meets the \<open>(N, N, 2)\<close> tensor of kernel
  gradients through broadcasting.
\<close>

definition eval_pressure_grad :: "ParticleList \<Rightarrow> ndarray \<Rightarrow> np_error + ndarray" where
  "eval_pressure_grad particles densities =
     rbind (eval_pressure particles densities) (\<lambda>pressures.
     rbind (newaxis_at 1 2 (positions particles)) (\<lambda>pos_i.
     rbind (newaxis_at 0 2 (positions particles)) (\<lambda>pos_j.
     rbind (np_sub pos_i pos_j) (\<lambda>positions_diff.
     rbind (gaussian_grad positions_diff (h particles)) (\<lambda>grad_w.
     rbind (newaxis_at 1 1 pressures) (\<lambda>p_col.
     rbind (newaxis_at 1 1 densities) (\<lambda>d_col.
     rbind (np_div p_col (np_square d_col)) (\<lambda>q1.
     rbind (np_div p_col (np_square d_col)) (\<lambda>q2.
     rbind (np_add q1 q2) (\<lambda>fraction_sum.
     rbind (newaxis_at 1 1 (masses particles)) (\<lambda>m_col.
     rbind (np_mul d_col m_col) (\<lambda>dm.
     rbind (np_mul dm fraction_sum) (\<lambda>factor.
     rbind (np_mul factor grad_w) (\<lambda>terms.
     np_sum 1 terms))))))))))))))"

text \<open>
  \<^verbatim>\<open>apply_pressure_force(particles, velocities, densities, pressure_grads, dt)\<close>:
  \<^verbatim>\<open>force = -1 / densities[:, np.newaxis] * pressure_grads\<close>
  \<^verbatim>\<open>return velocities + dt * force / particles.masses[:, np.newaxis]\<close>
\<close>

definition apply_pressure_force ::
  "ParticleList \<Rightarrow> ndarray \<Rightarrow> ndarray \<Rightarrow> ndarray \<Rightarrow> real \<Rightarrow> np_error + ndarray" where
  "apply_pressure_force particles vel densities pressure_grads dt =
     rbind (newaxis_at 1 1 densities) (\<lambda>d_col.
     rbind (np_div (scalar (- 1)) d_col) (\<lambda>inv.
     rbind (np_mul inv pressure_grads) (\<lambda>force.
     rbind (np_mul (scalar dt) force) (\<lambda>impulse.
     rbind (newaxis_at 1 1 (masses particles)) (\<lambda>m_col.
     rbind (np_div impulse m_col) (\<lambda>dv.
     np_add vel dv))))))"

text \<open>
  \<^verbatim>\<open>apply_gravity_force(particles, g, dt)\<close>:
  \<^verbatim>\<open>velocities_new[:particles.num_fluid_particles] += dt * g\<close> on a copy.
\<close>

definition apply_gravity_force :: "ParticleList \<Rightarrow> ndarray \<Rightarrow> real \<Rightarrow> np_error + ndarray" where
  "apply_gravity_force particles g dt =
     rbind (np_mul (scalar dt) g) (\<lambda>dv.
     iadd_prefix (velocities particles) (num_fluid_particles particles) dv)"

text \<open>
  \<^verbatim>\<open>update_positions(particles, velocities, dt)\<close>:
  \<^verbatim>\<open>positions_new[:F] += dt * velocities[:F]\<close> on a copy, \<open>F\<close> the fluid count.
\<close>

definition update_positions :: "ParticleList \<Rightarrow> ndarray \<Rightarrow> real \<Rightarrow> np_error + ndarray" where
  "update_positions particles vel dt =
     rbind (slice_prefix vel (num_fluid_particles particles)) (\<lambda>v.
     rbind (np_mul (scalar dt) v) (\<lambda>dx.
     iadd_prefix (positions particles) (num_fluid_particles particles) dx))"

text \<open>\<^verbatim>\<open>timestep(particles, g, dt)\<close>: the particle set is mutated; the model returns it.\<close>

definition timestep :: "ParticleList \<Rightarrow> ndarray \<Rightarrow> real \<Rightarrow> np_error + ParticleList" where
  "timestep particles g dt =
     rbind (reconstruct_density particles) (\<lambda>densities.
     rbind (eval_pressure_grad particles densities) (\<lambda>pressure_grads.
     rbind (apply_gravity_force particles g dt) (\<lambda>velocities1.
     rbind (apply_pressure_force particles velocities1 densities pressure_grads dt) (\<lambda>new_velocities.
     rbind (update_positions particles new_velocities dt) (\<lambda>new_positions.
     Inr (particles\<lparr>positions := new_positions, velocities := new_velocities\<rparr>))))))"

text \<open>
  \<^verbatim>\<open>ParticleList.__init__\<close>. \<^verbatim>\<open>positions.shape[0]\<close> raises IndexError on an array without
  dimensions. \<^verbatim>\<open>reconstruct_density(self)\<close> runs before the attribute
  \<^verbatim>\<open>rest_densities\<close> exists and never reads it; the model passes it an empty array there.
\<close>

definition ParticleList_init ::
  "ndarray \<Rightarrow> ndarray \<Rightarrow> ndarray \<Rightarrow> real \<Rightarrow> real \<Rightarrow> int \<Rightarrow> np_error + ParticleList" where
  "ParticleList_init ms pos vel hh kk nfluid =
     (case shape pos of
        [] \<Rightarrow> Inl IndexError
      | n # rest \<Rightarrow>
          rbind (reconstruct_density
            \<lparr>masses = ms, positions = pos, velocities = vel, h = hh, k = kk,
             num_particles = n, num_fluid_particles = nfluid, rest_densities = arr1 []\<rparr>)
          (\<lambda>rho. Inr
            \<lparr>masses = ms, positions = pos, velocities = vel, h = hh, k = kk,
             num_particles = n, num_fluid_particles = nfluid, rest_densities = rho\<rparr>))"

text \<open>
  The driver's loop:
  \<^verbatim>\<open>for _ in range(num_frames): timestep(particles, g, dt); frame_data.append(particles.positions.copy())\<close>
\<close>

fun run_frames ::
  "nat \<Rightarrow> ParticleList \<Rightarrow> ndarray \<Rightarrow> real \<Rightarrow> ndarray list \<Rightarrow> np_error + ParticleList \<times> ndarray list" where
  "run_frames 0 particles g dt frame_data = Inr (particles, frame_data)"
| "run_frames (Suc n) particles g dt frame_data =
     rbind (timestep particles g dt) (\<lambda>p'.
     run_frames n p' g dt (frame_data @ [positions p']))"

section \<open>The formulas of the specification\<close>

text \<open>
  The kernel and its gradient for one 2D displacement, as the specification writes them:
  \<open>W(d,h) = 1/(h\<surd>(2\<pi>)) exp(-\<parallel>d\<parallel>\<^sup>2/(2h\<^sup>2))\<close> and
  \<open>\<nabla>W(d,h) = -1/(h\<^sup>3\<surd>(2\<pi>)) exp(-\<parallel>d\<parallel>\<^sup>2/(2h\<^sup>2)) d\<close>.
\<close>

definition kernelValue :: "real \<times> real \<Rightarrow> real \<Rightarrow> real" where
  "kernelValue d hh = 1 / (hh * sqrt (2 * pi)) * exp (- ((fst d)\<^sup>2 + (snd d)\<^sup>2) / (2 * hh\<^sup>2))"

definition kernelGradient :: "real \<times> real \<Rightarrow> real \<Rightarrow> real \<times> real" where
  "kernelGradient d hh =
     (- 1 / (hh ^ 3 * sqrt (2 * pi)) * exp (- ((fst d)\<^sup>2 + (snd d)\<^sup>2) / (2 * hh\<^sup>2)) * fst d,
      - 1 / (hh ^ 3 * sqrt (2 * pi)) * exp (- ((fst d)\<^sup>2 + (snd d)\<^sup>2) / (2 * hh\<^sup>2)) * snd d)"

text \<open>The displacement \<open>position\<^sub>i - position\<^sub>j\<close> between two particles.\<close>

definition displacement :: "ParticleList \<Rightarrow> nat \<Rightarrow> nat \<Rightarrow> real \<times> real" where
  "displacement p i j =
     (elems (positions p) [i, 0] - elems (positions p) [j, 0],
      elems (positions p) [i, 1] - elems (positions p) [j, 1])"

text \<open>The equation of state \<open>k \<cdot> max(density / restDensity - 1, 0)\<close>.\<close>

definition pressure_eos :: "real \<Rightarrow> real \<Rightarrow> real \<Rightarrow> real" where
  "pressure_eos kk rho rho0 = kk * max (rho / rho0 - 1) 0"

definition pressure_at :: "ParticleList \<Rightarrow> ndarray \<Rightarrow> nat \<Rightarrow> real" where
  "pressure_at p densities i =
     pressure_eos (k p) (elems densities [i]) (elems (rest_densities p) [i])"

text \<open>
  The pressure gradient as the specification writes it, with particle \<open>i\<close>'s own density
  and pressure in both addends:
  \<open>\<Sum>\<^sub>j density\<^sub>i \<cdot> mass\<^sub>j \<cdot> (pressure\<^sub>i/density\<^sub>i\<^sup>2 + pressure\<^sub>i/density\<^sub>i\<^sup>2) \<cdot> \<nabla>W(position\<^sub>i - position\<^sub>j, h)\<close>.
\<close>

definition spec_pressureGrad :: "ParticleList \<Rightarrow> ndarray \<Rightarrow> nat \<Rightarrow> nat \<Rightarrow> real" where
  "spec_pressureGrad p densities i c =
     (\<Sum>j\<leftarrow>[0..<num_particles p]. elems densities [i] * elems (masses p) [j] *
        (pressure_at p densities i / (elems densities [i])\<^sup>2 +
         pressure_at p densities i / (elems densities [i])\<^sup>2) *
        coord (kernelGradient (displacement p i j) (h p)) c)"

section \<open>Well-formed particle states\<close>

text \<open>
  A state of \<open>N\<close> particles with arrays of consistent shapes, a positive smoothing length,
  positive masses and nonzero rest densities. On such a state no division of a time step
  meets a zero divisor.
\<close>

definition well_formed :: "ParticleList \<Rightarrow> nat \<Rightarrow> bool" where
  "well_formed p N \<longleftrightarrow>
     shape (positions p) = [N, 2] \<and> shape (velocities p) = [N, 2] \<and>
     shape (masses p) = [N] \<and> shape (rest_densities p) = [N] \<and> 0 < h p \<and>
     list_all (\<lambda>i. 0 < elems (masses p) [i]) [0..<N] \<and>
     list_all (\<lambda>i. elems (rest_densities p) [i] \<noteq> 0) [0..<N]"

section \<open>Example states\<close>

text \<open>
  Two particles of mass 1 at \<open>(0,0)\<close> and \<open>(1,0)\<close>, the first fluid, the second boundary,
  with \<open>h = 1\<close>, \<open>k = 1\<close> and rest densities 1.
\<close>

definition two_particles :: ParticleList where
  "two_particles =
     \<lparr>masses = arr1 [1, 1], positions = vecs [(0, 0), (1, 0)], velocities = vecs [(0, 0), (0, 0)],
      h = 1, k = 1, num_particles = 2, num_fluid_particles = 1, rest_densities = arr1 [1, 1]\<rparr>"

text \<open>The same particles with a negative stiffness.\<close>

definition negative_stiffness :: ParticleList where
  "negative_stiffness = two_particles\<lparr>k := - 1\<rparr>"

text \<open>
  The same positions with a massless second particle; the rest densities are the
  densities of this configuration, \<open>W(0)\<close> and \<open>W((1,0))\<close> for \<open>h = 1\<close>.
\<close>

definition massless :: ParticleList where
  "massless =
     \<lparr>masses = arr1 [1, 0], positions = vecs [(0, 0), (1, 0)], velocities = vecs [(0, 0), (0, 0)],
      h = 1, k = 1, num_particles = 2, num_fluid_particles = 2,
      rest_densities = arr1 [1 / sqrt (2 * pi), exp (- 1 / 2) / sqrt (2 * pi)]\<rparr>"

text \<open>A \<open>(1, 2, 2)\<close> tensor of displacements: \<open>(0,0)\<close> and \<open>(3,4)\<close>.\<close>

definition pair_displacements :: ndarray where
  "pair_displacements =
     \<lparr>shape = [1, 2, 2],
      elems = (\<lambda>idx. case idx of i # j # c # r \<Rightarrow> coord ([(0, 0), (3, 4)] ! j) c | _ \<Rightarrow> 0)\<rparr>"

section \<open>Facts about the array operations\<close>

lemma rbind_Inr [simp]: "rbind (Inr x) f = f x"
  by (simp add: rbind_def)

lemma rbind_Inl [simp]: "rbind (Inl e) f = Inl e"
  by (simp add: rbind_def)

lemma bdim_simps [simp]: "bdim x x = x" "bdim 1 y = y" "bdim (Suc 0) y = y" "bdim x 1 = x" "bdim x (Suc 0) = x"
  by (simp_all add: bdim_def)

lemma bidx_simps [simp]: "bidx 1 i = 0" "bidx (Suc 0) i = 0"
  by (simp_all add: bidx_def)

lemma bidx_less [simp]: "i < d \<Longrightarrow> bidx d i = i"
  by (simp add: bidx_def)

lemma in_indices: "idx \<in> set (indices s) \<longleftrightarrow> list_all2 (<) idx s"
  by (simp add: indices_def product_lists_set list_all2_map2)

lemma upt_0_2 [simp]: "[0..<2] = [0, Suc 0]"
  by (simp add: numeral_2_eq_2)

lemma sum_list_upt_lessThan: "(\<Sum>j\<leftarrow>[0..<n]. f j) = (\<Sum>j<n. f j)"
  by (simp add: interv_sum_list_conv_sum_set_nat atLeast_upt)

lemma np_div_Inr:
  "broadcast_shapes (shape a) (shape b) = Some s \<Longrightarrow>
   (\<And>idx. list_all2 (<) idx s \<Longrightarrow> elems b (proj (shape b) idx) \<noteq> 0) \<Longrightarrow>
   np_div a b = Inr \<lparr>shape = s,
     elems = (\<lambda>idx. elems a (proj (shape a) idx) / elems b (proj (shape b) idx))\<rparr>"
  by (auto simp add: np_div_def list_ex_iff in_indices)

section \<open>What each function computes\<close>

text \<open>
  For arrays of the expected shapes each function of the simulation returns an array,
  whose shape and elements the lemmas of this section give.
\<close>

lemma gaussian_spec:
  assumes "shape d = [a, b, 2]" "hh \<noteq> 0"
  shows "\<exists>w. gaussian d hh = Inr w \<and> shape w = [a, b] \<and>
     (\<forall>i<a. \<forall>j<b. elems w [i, j] = kernelValue (elems d [i, j, 0], elems d [i, j, 1]) hh)"
  using assms
  by (simp add: gaussian_def np_div_def scalar_def broadcast_shapes_def rbind_def list_ex_iff
     np_norm_last_def np_neg_def np_square_def np_map_def np_exp_def np_mul_def np_binop_def proj_def
     kernelValue_def)

lemma gaussian_grad_spec:
  assumes "shape d = [a, b, 2]" "hh \<noteq> 0"
  shows "\<exists>w. gaussian_grad d hh = Inr w \<and> shape w = [a, b, 2] \<and>
     (\<forall>i<a. \<forall>j<b. \<forall>c<2. elems w [i, j, c] =
        coord (kernelGradient (elems d [i, j, 0], elems d [i, j, 1]) hh) c)"
  using assms
  by (auto simp add: gaussian_grad_def np_div_def scalar_def broadcast_shapes_def rbind_def
     np_norm_last_def np_neg_def np_square_def np_map_def np_exp_def np_mul_def np_binop_def proj_def
     kernelGradient_def newaxis_at_def coord_def list_ex_iff less_2_cases_iff)

lemma positions_diff_spec:
  assumes "shape pos = [N, 2]"
  shows "\<exists>pi pj pd. newaxis_at 1 2 pos = Inr pi \<and> newaxis_at 0 2 pos = Inr pj \<and>
      np_sub pi pj = Inr pd \<and> shape pd = [N, N, 2] \<and>
      (\<forall>i<N. \<forall>j<N. \<forall>c<2. elems pd [i, j, c] = elems pos [i, c] - elems pos [j, c])"
  using assms
  by (simp add: newaxis_at_def np_sub_def np_binop_def broadcast_shapes_def proj_def)

lemma reconstruct_density_spec:
  assumes "shape (positions p) = [N, 2]" "shape (masses p) = [N]" "h p \<noteq> 0"
  shows "\<exists>rho. reconstruct_density p = Inr rho \<and> shape rho = [N] \<and>
     (\<forall>i<N. elems rho [i] = (\<Sum>j<N. elems (masses p) [j] * kernelValue (displacement p i j) (h p)))"
proof -
  obtain pi pj pd where pd: "newaxis_at 1 2 (positions p) = Inr pi" "newaxis_at 0 2 (positions p) = Inr pj"
      "np_sub pi pj = Inr pd" "shape pd = [N, N, 2]"
      "\<forall>i<N. \<forall>j<N. \<forall>c<2. elems pd [i, j, c] = elems (positions p) [i, c] - elems (positions p) [j, c]"
    using positions_diff_spec [OF assms(1)] by blast
  obtain w where w: "gaussian pd (h p) = Inr w" "shape w = [N, N]"
      "\<forall>i<N. \<forall>j<N. elems w [i, j] = kernelValue (elems pd [i, j, 0], elems pd [i, j, 1]) (h p)"
    using gaussian_spec [OF pd(4) assms(3)] by blast
  show ?thesis
    using pd w assms(2)
    by (simp add: reconstruct_density_def newaxis_at_def np_mul_def np_binop_def broadcast_shapes_def
        np_sum_def proj_def sum_list_upt_lessThan displacement_def)
qed

lemma eval_pressure_spec:
  assumes "shape densities = [N]" "shape (rest_densities p) = [N]"
    "\<forall>i<N. elems (rest_densities p) [i] \<noteq> 0"
  shows "\<exists>pr. eval_pressure p densities = Inr pr \<and> shape pr = [N] \<and>
     (\<forall>i<N. elems pr [i] = pressure_at p densities i)"
proof -
  have "np_div densities (rest_densities p) = Inr \<lparr>shape = [N],
     elems = (\<lambda>idx. elems densities (proj (shape densities) idx) /
        elems (rest_densities p) (proj (shape (rest_densities p)) idx))\<rparr>"
    using assms by (intro np_div_Inr) (auto simp: broadcast_shapes_def proj_def list_all2_Cons2)
  then show ?thesis
    using assms
    by (simp add: eval_pressure_def np_sub_def np_maximum_def np_mul_def np_binop_def scalar_def
        broadcast_shapes_def proj_def pressure_at_def pressure_eos_def)
qed

lemma np_binop_ex:
  assumes "broadcast_shapes (shape a) (shape b) = Some s"
  shows "\<exists>r. np_binop f a b = Inr r \<and> shape r = s \<and>
     elems r = (\<lambda>idx. f (elems a (proj (shape a) idx)) (elems b (proj (shape b) idx)))"
  using assms by (simp add: np_binop_def)

lemma np_div_ex:
  assumes "broadcast_shapes (shape a) (shape b) = Some s"
    and "\<And>idx. list_all2 (<) idx s \<Longrightarrow> elems b (proj (shape b) idx) \<noteq> 0"
  shows "\<exists>r. np_div a b = Inr r \<and> shape r = s \<and>
     elems r = (\<lambda>idx. elems a (proj (shape a) idx) / elems b (proj (shape b) idx))"
  using np_div_Inr [OF assms] by simp

lemma column_ex:
  assumes "shape a = [N]"
  shows "\<exists>col. newaxis_at 1 1 a = Inr col \<and> shape col = [N, 1] \<and>
     (\<forall>i. elems col [i, 0] = elems a [i])"
  using assms by (simp add: newaxis_at_def)

lemma column_nonzero:
  assumes "shape col = [N, 1]" "\<forall>i<N. elems col [i, 0] \<noteq> 0" "list_all2 (<) idx [N, m]"
  shows "elems col (proj (shape col) idx) \<noteq> 0"
proof -
  obtain i c where "idx = [i, c]" "i < N"
    using assms(3) by (auto simp: list_all2_Cons2)
  then show ?thesis
    using assms(1,2) by (simp add: proj_def)
qed

lemma eval_pressure_grad_spec:
  assumes "shape (positions p) = [N, 2]" "shape (masses p) = [N]" "h p \<noteq> 0"
    "shape densities = [N]" "shape (rest_densities p) = [N]"
    "\<forall>i<N. elems (rest_densities p) [i] \<noteq> 0" "\<forall>i<N. elems densities [i] \<noteq> 0"
  shows "\<exists>gr. eval_pressure_grad p densities = Inr gr \<and> shape gr = [N, 2] \<and>
     (\<forall>i<N. \<forall>c<2. elems gr [i, c] =
        (\<Sum>j<N. elems densities [j] * elems (masses p) [j] *
           (pressure_at p densities j / (elems densities [j])\<^sup>2 +
            pressure_at p densities j / (elems densities [j])\<^sup>2) *
           coord (kernelGradient (displacement p i j) (h p)) c))"
proof -
  obtain pr where pr: "eval_pressure p densities = Inr pr" "shape pr = [N]"
      "\<forall>i<N. elems pr [i] = pressure_at p densities i"
    using eval_pressure_spec [OF assms(4,5,6)] by blast
  obtain pi pj pd where pd: "newaxis_at 1 2 (positions p) = Inr pi" "newaxis_at 0 2 (positions p) = Inr pj"
      "np_sub pi pj = Inr pd" "shape pd = [N, N, 2]"
      "\<forall>i<N. \<forall>j<N. \<forall>c<2. elems pd [i, j, c] = elems (positions p) [i, c] - elems (positions p) [j, c]"
    using positions_diff_spec [OF assms(1)] by blast
  obtain w where w: "gaussian_grad pd (h p) = Inr w" "shape w = [N, N, 2]"
      "\<forall>i<N. \<forall>j<N. \<forall>c<2. elems w [i, j, c] =
         coord (kernelGradient (elems pd [i, j, 0], elems pd [i, j, 1]) (h p)) c"
    using gaussian_grad_spec [OF pd(4) assms(3)] by blast
  obtain p_col where p_col: "newaxis_at 1 1 pr = Inr p_col" "shape p_col = [N, 1]"
      "\<forall>i. elems p_col [i, 0] = elems pr [i]"
    using column_ex [OF pr(2)] by blast
  obtain d_col where d_col: "newaxis_at 1 1 densities = Inr d_col" "shape d_col = [N, 1]"
      "\<forall>i. elems d_col [i, 0] = elems densities [i]"
    using column_ex [OF assms(4)] by blast
  obtain m_col where m_col: "newaxis_at 1 1 (masses p) = Inr m_col" "shape m_col = [N, 1]"
      "\<forall>i. elems m_col [i, 0] = elems (masses p) [i]"
    using column_ex [OF assms(2)] by blast
  have sq: "shape (np_square d_col) = [N, 1]"
      "\<forall>i. elems (np_square d_col) [i, 0] = (elems densities [i])\<^sup>2"
    using d_col by (simp_all add: np_square_def np_map_def)
  have nz: "\<forall>i<N. elems (np_square d_col) [i, 0] \<noteq> 0"
    using assms(7) sq(2) by simp
  obtain q where q: "np_div p_col (np_square d_col) = Inr q" "shape q = [N, 1]"
      "elems q = (\<lambda>idx. elems p_col (proj (shape p_col) idx) /
         elems (np_square d_col) (proj (shape (np_square d_col)) idx))"
    using np_div_ex [of p_col "np_square d_col" "[N, 1]"]
      column_nonzero [OF sq(1) nz, of _ 1] p_col(2) sq(1)
    by (auto simp: broadcast_shapes_def)
  obtain fs where fs: "np_add q q = Inr fs" "shape fs = [N, 1]"
      "elems fs = (\<lambda>idx. elems q (proj (shape q) idx) + elems q (proj (shape q) idx))"
    using np_binop_ex [of q q "[N, 1]" "(+)"] q(2)
    by (auto simp: np_add_def broadcast_shapes_def)
  obtain dm where dm: "np_mul d_col m_col = Inr dm" "shape dm = [N, 1]"
      "elems dm = (\<lambda>idx. elems d_col (proj (shape d_col) idx) * elems m_col (proj (shape m_col) idx))"
    using np_binop_ex [of d_col m_col "[N, 1]" "(*)"] d_col(2) m_col(2)
    by (auto simp: np_mul_def broadcast_shapes_def)
  obtain fac where fac: "np_mul dm fs = Inr fac" "shape fac = [N, 1]"
      "elems fac = (\<lambda>idx. elems dm (proj (shape dm) idx) * elems fs (proj (shape fs) idx))"
    using np_binop_ex [of dm fs "[N, 1]" "(*)"] dm(2) fs(2)
    by (auto simp: np_mul_def broadcast_shapes_def)
  obtain terms where terms: "np_mul fac w = Inr terms" "shape terms = [N, N, 2]"
      "elems terms = (\<lambda>idx. elems fac (proj (shape fac) idx) * elems w (proj (shape w) idx))"
    using np_binop_ex [of fac w "[N, N, 2]" "(*)"] fac(2) w(2)
    by (auto simp: np_mul_def broadcast_shapes_def)
  have elt: "elems terms [i, j, c] = elems densities [j] * elems (masses p) [j] *
      (pressure_at p densities j / (elems densities [j])\<^sup>2 +
       pressure_at p densities j / (elems densities [j])\<^sup>2) *
      coord (kernelGradient (displacement p i j) (h p)) c"
    if "i < N" "j < N" "c < 2" for i j c
    using that terms(3) fac(2,3) dm(2,3) fs(2,3) q(2,3) sq p_col(2,3) d_col(2,3) m_col(2,3)
      w(2,3) pd(5) pr(3)
    by (simp add: proj_def displacement_def)
  show ?thesis
    using pr(1) pd(1,2,3) w(1) p_col(1) d_col(1) m_col(1) q(1) fs(1) dm(1) fac(1) terms(1,2) elt
    by (simp add: eval_pressure_grad_def np_sum_def sum_list_upt_lessThan)
qed

lemma apply_pressure_force_spec:
  assumes "shape vel = [N, 2]" "shape densities = [N]" "shape grads = [N, 2]"
    "shape (masses p) = [N]"
    "\<forall>i<N. elems densities [i] \<noteq> 0" "\<forall>i<N. elems (masses p) [i] \<noteq> 0"
  shows "\<exists>v. apply_pressure_force p vel densities grads dt = Inr v \<and> shape v = [N, 2] \<and>
     (\<forall>i<N. \<forall>c<2. elems v [i, c] =
        elems vel [i, c] + dt * (- 1 / elems densities [i] * elems grads [i, c]) / elems (masses p) [i])"
proof -
  obtain d_col where d_col: "newaxis_at 1 1 densities = Inr d_col" "shape d_col = [N, 1]"
      "\<forall>i. elems d_col [i, 0] = elems densities [i]"
    using column_ex [OF assms(2)] by blast
  obtain m_col where m_col: "newaxis_at 1 1 (masses p) = Inr m_col" "shape m_col = [N, 1]"
      "\<forall>i. elems m_col [i, 0] = elems (masses p) [i]"
    using column_ex [OF assms(4)] by blast
  have dnz: "\<forall>i<N. elems d_col [i, 0] \<noteq> 0"
    using d_col(3) assms(5) by simp
  have mnz: "\<forall>i<N. elems m_col [i, 0] \<noteq> 0"
    using m_col(3) assms(6) by simp
  obtain inv where inv: "np_div (scalar (- 1)) d_col = Inr inv" "shape inv = [N, 1]"
      "elems inv = (\<lambda>idx. elems (scalar (- 1)) (proj (shape (scalar (- 1))) idx) /
         elems d_col (proj (shape d_col) idx))"
    using np_div_ex [of "scalar (- 1)" d_col "[N, 1]"]
      column_nonzero [OF d_col(2) dnz, of _ 1] d_col(2)
    by (auto simp: scalar_def broadcast_shapes_def)
  obtain force where force: "np_mul inv grads = Inr force" "shape force = [N, 2]"
      "elems force = (\<lambda>idx. elems inv (proj (shape inv) idx) * elems grads (proj (shape grads) idx))"
    using np_binop_ex [of inv grads "[N, 2]" "(*)"] inv(2) assms(3)
    by (auto simp: np_mul_def broadcast_shapes_def)
  obtain impulse where impulse: "np_mul (scalar dt) force = Inr impulse" "shape impulse = [N, 2]"
      "elems impulse = (\<lambda>idx. elems (scalar dt) (proj (shape (scalar dt)) idx) *
         elems force (proj (shape force) idx))"
    using np_binop_ex [of "scalar dt" force "[N, 2]" "(*)"] force(2)
    by (auto simp: np_mul_def broadcast_shapes_def scalar_def)
  obtain dv where dv: "np_div impulse m_col = Inr dv" "shape dv = [N, 2]"
      "elems dv = (\<lambda>idx. elems impulse (proj (shape impulse) idx) / elems m_col (proj (shape m_col) idx))"
    using np_div_ex [of impulse m_col "[N, 2]"]
      column_nonzero [OF m_col(2) mnz, of _ 2] m_col(2) impulse(2)
    by (auto simp: scalar_def broadcast_shapes_def)
  obtain v where v: "np_add vel dv = Inr v" "shape v = [N, 2]"
      "elems v = (\<lambda>idx. elems vel (proj (shape vel) idx) + elems dv (proj (shape dv) idx))"
    using np_binop_ex [of vel dv "[N, 2]" "(+)"] dv(2) assms(1)
    by (auto simp: np_add_def broadcast_shapes_def)
  show ?thesis
    using d_col m_col inv force impulse dv v assms(1,3)
    by (simp add: apply_pressure_force_def proj_def scalar_def)
qed

lemma iadd_prefix_frame:
  assumes "iadd_prefix a n b = Inr r" "shape a = len # rest"
  shows "shape r = shape a"
    and "slice_bound n len \<le> i \<Longrightarrow> elems r (i # idx) = elems a (i # idx)"
  using assms by (auto simp: iadd_prefix_def split: if_splits)

lemma iadd_prefix_rows:
  assumes "shape a = [N, 2]"
    "broadcast_shapes [slice_bound n N, 2] (shape b) = Some [slice_bound n N, 2]"
  shows "\<exists>r. iadd_prefix a n b = Inr r \<and> shape r = [N, 2] \<and>
     (\<forall>i c. elems r [i, c] =
        (if i < slice_bound n N then elems a [i, c] + elems b (proj (shape b) [i, c])
         else elems a [i, c]))"
  using assms by (simp add: iadd_prefix_def)

lemma apply_gravity_force_spec:
  assumes "shape (velocities p) = [N, 2]" "shape g = [2]"
  shows "\<exists>v. apply_gravity_force p g dt = Inr v \<and> shape v = [N, 2] \<and>
     (\<forall>i c. c < 2 \<longrightarrow> elems v [i, c] =
        (if i < slice_bound (num_fluid_particles p) N
         then elems (velocities p) [i, c] + dt * elems g [c] else elems (velocities p) [i, c]))"
proof -
  obtain dv where dv: "np_mul (scalar dt) g = Inr dv" "shape dv = [2]"
      "elems dv = (\<lambda>idx. elems (scalar dt) (proj (shape (scalar dt)) idx) * elems g (proj (shape g) idx))"
    using np_binop_ex [of "scalar dt" g "[2]" "(*)"] assms(2)
    by (auto simp: np_mul_def broadcast_shapes_def scalar_def)
  have "broadcast_shapes [slice_bound (num_fluid_particles p) N, 2] (shape dv) =
      Some [slice_bound (num_fluid_particles p) N, 2]"
    using dv(2) by (simp add: broadcast_shapes_def)
  from iadd_prefix_rows [OF assms(1) this] dv assms(2) show ?thesis
    by (auto simp add: apply_gravity_force_def proj_def scalar_def)
qed

lemma slice_prefix_ex:
  assumes "shape a = len # rest"
  shows "\<exists>v. slice_prefix a n = Inr v \<and> shape v = slice_bound n len # rest \<and> elems v = elems a"
  using assms by (simp add: slice_prefix_def)

lemma update_positions_spec:
  assumes "shape (positions p) = [N, 2]" "shape vel = [N, 2]"
  shows "\<exists>x. update_positions p vel dt = Inr x \<and> shape x = [N, 2] \<and>
     (\<forall>i c. c < 2 \<longrightarrow> elems x [i, c] =
        (if i < slice_bound (num_fluid_particles p) N
         then elems (positions p) [i, c] + dt * elems vel [i, c] else elems (positions p) [i, c]))"
proof -
  let ?F = "slice_bound (num_fluid_particles p) N"
  obtain v where v: "slice_prefix vel (num_fluid_particles p) = Inr v" "shape v = [?F, 2]"
      "elems v = elems vel"
    using slice_prefix_ex [OF assms(2)] by blast
  obtain dx where dx: "np_mul (scalar dt) v = Inr dx" "shape dx = [?F, 2]"
      "elems dx = (\<lambda>idx. elems (scalar dt) (proj (shape (scalar dt)) idx) * elems v (proj (shape v) idx))"
    using np_binop_ex [of "scalar dt" v "[?F, 2]" "(*)"] v(2)
    by (auto simp: np_mul_def broadcast_shapes_def scalar_def)
  have "broadcast_shapes [?F, 2] (shape dx) = Some [?F, 2]"
    using dx(2) by (simp add: broadcast_shapes_def)
  from iadd_prefix_rows [OF assms(1) this] v dx show ?thesis
    by (auto simp add: update_positions_def proj_def scalar_def)
qed

lemma update_positions_frame:
  assumes "update_positions p vel dt = Inr x" "shape (positions p) = len # rest"
  shows "shape x = shape (positions p)"
    and "slice_bound (num_fluid_particles p) len \<le> i \<Longrightarrow>
      elems x (i # idx) = elems (positions p) (i # idx)"
  using assms iadd_prefix_frame [of "positions p" "num_fluid_particles p" _ x len rest]
  by (auto simp: update_positions_def rbind_def split: sum.splits)

section \<open>Steps on well-formed states\<close>

text \<open>
  With \<open>h > 0\<close> and positive masses every density is positive, so a step on a
  well-formed state meets no zero divisor, returns, and returns a well-formed state.
\<close>

lemma list_all_upt: "list_all P [0..<n] \<longleftrightarrow> (\<forall>i<n. P i)"
  by (auto simp: list_all_iff)

lemma kernelValue_pos: "0 < hh \<Longrightarrow> 0 < kernelValue d hh"
  by (simp add: kernelValue_def)

lemma density_pos:
  assumes "0 < hh" "\<forall>j<N. 0 < m j" "i < (N::nat)"
  shows "0 < (\<Sum>j<N. m j * kernelValue (d j) hh)"
proof (rule sum_pos)
  show "finite {..<N}" by simp
  show "{..<N} \<noteq> {}" using assms(3) by auto
  fix j assume "j \<in> {..<N}"
  then show "0 < m j * kernelValue (d j) hh"
    using assms(1,2) by (simp add: kernelValue_pos)
qed

lemma timestep_fields:
  assumes "timestep p g dt = Inr p'"
  shows "masses p' = masses p" "h p' = h p" "k p' = k p" "num_particles p' = num_particles p"
    "num_fluid_particles p' = num_fluid_particles p" "rest_densities p' = rest_densities p"
  using assms by (auto simp: timestep_def rbind_def split: sum.splits)

lemma timestep_positions:
  assumes "timestep p g dt = Inr p'"
  shows "\<exists>vel. update_positions p vel dt = Inr (positions p')"
  using assms by (auto simp: timestep_def rbind_def split: sum.splits)

lemma timestep_total:
  assumes "well_formed p N" "shape g = [2]"
  shows "\<exists>p'. timestep p g dt = Inr p' \<and> well_formed p' N"
proof -
  from assms(1) have sh: "shape (positions p) = [N, 2]" "shape (velocities p) = [N, 2]"
      "shape (masses p) = [N]" "shape (rest_densities p) = [N]"
    and hpos: "0 < h p" and mpos: "\<forall>i<N. 0 < elems (masses p) [i]"
    and rnz: "\<forall>i<N. elems (rest_densities p) [i] \<noteq> 0"
    by (simp_all add: well_formed_def list_all_upt)
  from hpos have hnz: "h p \<noteq> 0" by simp
  from mpos have mnz: "\<forall>i<N. elems (masses p) [i] \<noteq> 0" by auto
  obtain rho where rho: "reconstruct_density p = Inr rho" "shape rho = [N]"
      "\<forall>i<N. elems rho [i] = (\<Sum>j<N. elems (masses p) [j] * kernelValue (displacement p i j) (h p))"
    using reconstruct_density_spec [OF sh(1) sh(3) hnz] by blast
  have rho_nz: "\<forall>i<N. elems rho [i] \<noteq> 0"
  proof (intro allI impI)
    fix i assume "i < N"
    with density_pos [OF hpos mpos this, of "displacement p i"] rho(3)
    show "elems rho [i] \<noteq> 0" by simp
  qed
  obtain gr where gr: "eval_pressure_grad p rho = Inr gr" "shape gr = [N, 2]"
    using eval_pressure_grad_spec [OF sh(1) sh(3) hnz rho(2) sh(4) rnz rho_nz] by blast
  obtain v1 where v1: "apply_gravity_force p g dt = Inr v1" "shape v1 = [N, 2]"
    using apply_gravity_force_spec [OF sh(2) assms(2)] by blast
  obtain v where v: "apply_pressure_force p v1 rho gr dt = Inr v" "shape v = [N, 2]"
    using apply_pressure_force_spec [OF v1(2) rho(2) gr(2) sh(3) rho_nz mnz] by blast
  obtain x where x: "update_positions p v dt = Inr x" "shape x = [N, 2]"
    using update_positions_spec [OF sh(1) v(2)] by blast
  show ?thesis
    using rho(1) gr(1) v1(1) v(1,2) x assms(1)
    by (simp add: timestep_def well_formed_def)
qed

lemma run_frames_total:
  assumes "well_formed p N" "shape g = [2]"
  shows "\<exists>p' fd'. run_frames n p g dt fd = Inr (p', fd') \<and> well_formed p' N"
  using assms(1)
proof (induction n arbitrary: p fd)
  case 0
  then show ?case by simp
next
  case (Suc n)
  obtain q where q: "timestep p g dt = Inr q" "well_formed q N"
    using timestep_total [OF Suc.prems assms(2)] by blast
  from Suc.IH [OF q(2)] q(1) show ?case by simp
qed

lemma init_total:
  assumes "shape pos = [N, 2]" "shape vel = [N, 2]" "shape ms = [N]" "0 < hh"
    "\<forall>i<N. 0 < elems ms [i]"
  shows "\<exists>p. ParticleList_init ms pos vel hh kk nf = Inr p \<and> well_formed p N \<and>
     positions p = pos \<and> velocities p = vel \<and> masses p = ms \<and> h p = hh \<and> k p = kk \<and>
     num_fluid_particles p = nf \<and> num_particles p = N"
proof -
  let ?self = "\<lparr>masses = ms, positions = pos, velocities = vel, h = hh, k = kk,
     num_particles = N, num_fluid_particles = nf, rest_densities = arr1 []\<rparr>"
  from assms(4) have hnz: "h ?self \<noteq> 0" by simp
  obtain rho where rho: "reconstruct_density ?self = Inr rho" "shape rho = [N]"
      "\<forall>i<N. elems rho [i] =
         (\<Sum>j<N. elems (masses ?self) [j] * kernelValue (displacement ?self i j) (h ?self))"
    using reconstruct_density_spec [of ?self N] assms(1,3) hnz by auto
  have "\<forall>i<N. elems rho [i] \<noteq> 0"
  proof (intro allI impI)
    fix i assume "i < N"
    with density_pos [OF assms(4), of N "\<lambda>j. elems ms [j]" i "displacement ?self i"] assms(5) rho(3)
    show "elems rho [i] \<noteq> 0" by simp
  qed
  then show ?thesis
    using rho(1,2) assms
    by (simp add: ParticleList_init_def well_formed_def list_all_upt)
qed

section \<open>Evaluating the example arrays\<close>

lemma arr1_simps [simp]: "shape (arr1 xs) = [length xs]" "elems (arr1 xs) (i # r) = xs ! i"
  by (simp_all add: arr1_def)

lemma vecs_simps [simp]: "shape (vecs ps) = [length ps, 2]"
    "elems (vecs ps) (i # c # r) = coord (ps ! i) c"
  by (simp_all add: vecs_def)

lemma coord_simps [simp]: "coord (x, y) 0 = x" "coord (x, y) (Suc 0) = y" "coord (x, y) 1 = y"
  by (simp_all add: coord_def)

lemma all_less_2: "(\<forall>i<2. P i) \<longleftrightarrow> P 0 \<and> P (Suc 0)"
  by (auto simp: less_2_cases_iff)

section \<open>The integrator\<close>

text \<open>
  C7. For \<open>N\<close> particles with nonzero densities and masses, \<open>apply_pressure_force\<close>
  updates every particle index in \<open>[0, N)\<close>, boundary particles included, by
  \<open>velocity + dt \<cdot> force / mass\<close> with \<open>force = - pressureGrad / density\<close>; the fluid
  count plays no part in it.
\<close>

theorem apply_pressure_force_every_index:
  assumes "shape vel = [N, 2]" "shape densities = [N]" "shape grads = [N, 2]"
    "shape (masses p) = [N]"
    "\<forall>i<N. elems densities [i] \<noteq> 0" "\<forall>i<N. elems (masses p) [i] \<noteq> 0"
    "i < N" "c < 2"
  shows "elem_at (apply_pressure_force p vel densities grads dt) [i, c] =
       Some (elems vel [i, c] + dt * (- elems grads [i, c] / elems densities [i]) / elems (masses p) [i]) \<and>
     shape_of (apply_pressure_force p vel densities grads dt) = Some [N, 2] \<and>
     apply_pressure_force (p\<lparr>num_fluid_particles := F\<rparr>) vel densities grads dt =
       apply_pressure_force p vel densities grads dt"
proof -
  obtain v where v: "apply_pressure_force p vel densities grads dt = Inr v" "shape v = [N, 2]"
      "\<forall>i<N. \<forall>c<2. elems v [i, c] =
        elems vel [i, c] + dt * (- 1 / elems densities [i] * elems grads [i, c]) / elems (masses p) [i]"
    using apply_pressure_force_spec [OF assms(1-6)] by blast
  have "apply_pressure_force (p\<lparr>num_fluid_particles := F\<rparr>) vel densities grads dt =
       apply_pressure_force p vel densities grads dt"
    by (simp add: apply_pressure_force_def)
  then show ?thesis
    using v assms(7,8) by (simp add: elem_at_def shape_of_def)
qed

theorem apply_pressure_force_every_index_witness:
  "elem_at (apply_pressure_force two_particles (vecs [(1, 2), (3, 4)]) (arr1 [2, 4])
      (vecs [(1, 1), (2, 2)]) (1 / 2)) [1, 0] = Some (11 / 4) \<and>
   shape_of (apply_pressure_force two_particles (vecs [(1, 2), (3, 4)]) (arr1 [2, 4])
      (vecs [(1, 1), (2, 2)]) (1 / 2)) = Some [2, 2]"
  using apply_pressure_force_every_index [of "vecs [(1, 2), (3, 4)]" 2 "arr1 [2, 4]"
      "vecs [(1, 1), (2, 2)]" two_particles 1 0 "1 / 2"]
  by (simp add: two_particles_def all_less_2)

section \<open>The kernel\<close>

text \<open>
  C10. For \<open>h > 0\<close> and every displacement \<open>d\<close> of an \<open>(a, b, 2)\<close> tensor, \<open>gaussian\<close>
  returns \<open>1/(h\<surd>(2\<pi>)) \<cdot> exp(-\<parallel>d\<parallel>\<^sup>2/(2h\<^sup>2))\<close> and \<open>gaussian_grad\<close> returns
  \<open>-1/(h\<^sup>3\<surd>(2\<pi>)) \<cdot> exp(-\<parallel>d\<parallel>\<^sup>2/(2h\<^sup>2)) \<cdot> d\<close>; at \<open>d = 0\<close> the value is the positive
  constant \<open>1/(h\<surd>(2\<pi>))\<close> and the gradient is zero.
\<close>

theorem gaussian_kernel_formulas:
  assumes "shape d = [a, b, 2]" "0 < hh" "i < a" "j < b" "c < 2"
  shows "elem_at (gaussian d hh) [i, j] =
       Some (1 / (hh * sqrt (2 * pi)) *
         exp (- ((elems d [i, j, 0])\<^sup>2 + (elems d [i, j, 1])\<^sup>2) / (2 * hh\<^sup>2))) \<and>
     elem_at (gaussian_grad d hh) [i, j, c] =
       Some (- 1 / (hh ^ 3 * sqrt (2 * pi)) *
         exp (- ((elems d [i, j, 0])\<^sup>2 + (elems d [i, j, 1])\<^sup>2) / (2 * hh\<^sup>2)) * elems d [i, j, c]) \<and>
     (elems d [i, j, 0] = 0 \<and> elems d [i, j, 1] = 0 \<longrightarrow>
       elem_at (gaussian d hh) [i, j] = Some (1 / (hh * sqrt (2 * pi))) \<and>
       0 < 1 / (hh * sqrt (2 * pi)) \<and>
       elem_at (gaussian_grad d hh) [i, j, c] = Some 0)"
proof -
  from assms(2) have hnz: "hh \<noteq> 0" by simp
  obtain w where w: "gaussian d hh = Inr w"
      "\<forall>i<a. \<forall>j<b. elems w [i, j] = kernelValue (elems d [i, j, 0], elems d [i, j, 1]) hh"
    using gaussian_spec [OF assms(1) hnz] by blast
  obtain gw where gw: "gaussian_grad d hh = Inr gw"
      "\<forall>i<a. \<forall>j<b. \<forall>c<2. elems gw [i, j, c] =
         coord (kernelGradient (elems d [i, j, 0], elems d [i, j, 1]) hh) c"
    using gaussian_grad_spec [OF assms(1) hnz] by blast
  have c: "c = 0 \<or> c = 1"
    using assms(5) by auto
  have kval: "elem_at (gaussian d hh) [i, j] =
       Some (1 / (hh * sqrt (2 * pi)) *
         exp (- ((elems d [i, j, 0])\<^sup>2 + (elems d [i, j, 1])\<^sup>2) / (2 * hh\<^sup>2)))"
    using w assms(3,4) by (simp add: elem_at_def kernelValue_def)
  have grad: "elem_at (gaussian_grad d hh) [i, j, c] =
       Some (- 1 / (hh ^ 3 * sqrt (2 * pi)) *
         exp (- ((elems d [i, j, 0])\<^sup>2 + (elems d [i, j, 1])\<^sup>2) / (2 * hh\<^sup>2)) * elems d [i, j, c])"
    using gw assms(3,4,5) c by (auto simp add: elem_at_def kernelGradient_def coord_def)
  have pos: "0 < 1 / (hh * sqrt (2 * pi))"
    using assms(2) by simp
  from c show ?thesis
    unfolding kval grad using pos by auto
qed

theorem gaussian_kernel_formulas_witness:
  "elem_at (gaussian pair_displacements 1) [0, 0] = Some (1 / sqrt (2 * pi)) \<and>
   elem_at (gaussian_grad pair_displacements 1) [0, 0, 0] = Some 0 \<and>
   elem_at (gaussian pair_displacements 1) [0, 1] = Some (1 / sqrt (2 * pi) * exp (- 25 / 2)) \<and>
   elem_at (gaussian_grad pair_displacements 1) [0, 1, 1] =
     Some (- 1 / sqrt (2 * pi) * exp (- 25 / 2) * 4)"
  using gaussian_kernel_formulas [of pair_displacements 1 2 1 0 0 0]
    gaussian_kernel_formulas [of pair_displacements 1 2 1 0 1 1]
  by (simp add: pair_displacements_def)

section \<open>The density estimator\<close>

lemma displacement_self [simp]: "displacement p i i = (0, 0)"
  by (simp add: displacement_def)

lemma sum_less_2: "(\<Sum>j<2. f j) = f 0 + f (Suc 0)"
  by (simp add: numeral_2_eq_2)

text \<open>
  C3. For \<open>N\<close> positions and masses and \<open>h \<noteq> 0\<close>, for every particle \<open>i\<close> the density
  estimator returns
  \<open>\<Sum>\<^sub>j mass\<^sub>j \<cdot> kernelValue(position\<^sub>i - position\<^sub>j, h)\<close>, the sum over all \<open>N\<close> particles,
  fluid and boundary alike, with the self term \<open>j = i\<close> (whose kernel value is the one
  at zero displacement).
\<close>

theorem reconstruct_density_all_pairs:
  assumes "shape (positions p) = [N, 2]" "shape (masses p) = [N]" "h p \<noteq> 0" "i < N"
  shows "elem_at (reconstruct_density p) [i] =
       Some (\<Sum>j<N. elems (masses p) [j] * kernelValue (displacement p i j) (h p)) \<and>
     (\<Sum>j<N. elems (masses p) [j] * kernelValue (displacement p i j) (h p)) =
       elems (masses p) [i] * kernelValue (0, 0) (h p) +
       (\<Sum>j\<in>{..<N} - {i}. elems (masses p) [j] * kernelValue (displacement p i j) (h p)) \<and>
     reconstruct_density (p\<lparr>num_fluid_particles := F\<rparr>) = reconstruct_density p"
proof -
  obtain rho where rho: "reconstruct_density p = Inr rho"
      "\<forall>i<N. elems rho [i] = (\<Sum>j<N. elems (masses p) [j] * kernelValue (displacement p i j) (h p))"
    using reconstruct_density_spec [OF assms(1,2,3)] by blast
  have self: "(\<Sum>j<N. elems (masses p) [j] * kernelValue (displacement p i j) (h p)) =
       elems (masses p) [i] * kernelValue (0, 0) (h p) +
       (\<Sum>j\<in>{..<N} - {i}. elems (masses p) [j] * kernelValue (displacement p i j) (h p))"
    using assms(4) sum.remove [of "{..<N}" i "\<lambda>j. elems (masses p) [j] * kernelValue (displacement p i j) (h p)"]
    by simp
  have "reconstruct_density (p\<lparr>num_fluid_particles := F\<rparr>) = reconstruct_density p"
    by (simp add: reconstruct_density_def)
  with rho assms(4) self show ?thesis
    by (simp add: elem_at_def)
qed

theorem reconstruct_density_all_pairs_witness:
  "elem_at (reconstruct_density two_particles) [0] =
     Some (kernelValue (0, 0) 1 + kernelValue (- 1, 0) 1) \<and>
   elem_at (reconstruct_density two_particles) [1] =
     Some (kernelValue (1, 0) 1 + kernelValue (0, 0) 1)"
  using reconstruct_density_all_pairs [of two_particles 2 0]
    reconstruct_density_all_pairs [of two_particles 2 1]
  by (simp add: two_particles_def sum_less_2 displacement_def)

section \<open>The pressure solver\<close>

text \<open>
  C2. For \<open>N\<close> particles with nonzero densities and rest densities and \<open>h \<noteq> 0\<close>,
  \<open>eval_pressure_grad\<close> returns, for particle \<open>i\<close>,
  \<open>\<Sum>\<^sub>j density\<^sub>j \<cdot> mass\<^sub>j \<cdot> (2 \<cdot> pressure\<^sub>j / density\<^sub>j\<^sup>2) \<cdot> \<nabla>W(position\<^sub>i - position\<^sub>j, h)\<close>:
  density, mass and pressure are those of the neighbour \<open>j\<close>, because the \<open>(N, 1)\<close> columns
  broadcast along the middle axis of the \<open>(N, N, 2)\<close> tensor. The pressures are the ones
  \<open>eval_pressure\<close> returns for the same densities.
\<close>

theorem eval_pressure_grad_neighbour_factors:
  assumes "shape (positions p) = [N, 2]" "shape (masses p) = [N]" "h p \<noteq> 0"
    "shape densities = [N]" "shape (rest_densities p) = [N]"
    "\<forall>j<N. elems (rest_densities p) [j] \<noteq> 0" "\<forall>j<N. elems densities [j] \<noteq> 0"
    "i < N" "c < 2"
  shows "elem_at (eval_pressure_grad p densities) [i, c] =
       Some (\<Sum>j<N. elems densities [j] * elems (masses p) [j] *
          (2 * pressure_at p densities j / (elems densities [j])\<^sup>2) *
          coord (kernelGradient (displacement p i j) (h p)) c) \<and>
     elem_at (eval_pressure p densities) [i] = Some (pressure_at p densities i)"
proof -
  obtain pr where pr: "eval_pressure p densities = Inr pr"
      "\<forall>i<N. elems pr [i] = pressure_at p densities i"
    using eval_pressure_spec [OF assms(4,5,6)] by blast
  obtain gr where gr: "eval_pressure_grad p densities = Inr gr"
     "\<forall>i<N. \<forall>c<2. elems gr [i, c] =
        (\<Sum>j<N. elems densities [j] * elems (masses p) [j] *
           (pressure_at p densities j / (elems densities [j])\<^sup>2 +
            pressure_at p densities j / (elems densities [j])\<^sup>2) *
           coord (kernelGradient (displacement p i j) (h p)) c)"
    using eval_pressure_grad_spec [OF assms(1-7)] by blast
  show ?thesis
    using pr gr assms(8,9) by (simp add: elem_at_def)
qed

theorem eval_pressure_grad_neighbour_factors_witness:
  "elem_at (eval_pressure_grad two_particles (arr1 [2, 1])) [0, 0] = Some 0 \<and>
   elem_at (eval_pressure_grad two_particles (arr1 [2, 1])) [1, 0] =
     Some (- (exp (- 1 / 2) / sqrt (2 * pi))) \<and>
   elem_at (eval_pressure two_particles (arr1 [2, 1])) [0] = Some 1 \<and>
   elem_at (eval_pressure two_particles (arr1 [2, 1])) [1] = Some 0"
  using eval_pressure_grad_neighbour_factors [of two_particles 2 "arr1 [2, 1]" 0 0]
    eval_pressure_grad_neighbour_factors [of two_particles 2 "arr1 [2, 1]" 1 0]
  by (simp add: two_particles_def all_less_2 sum_less_2 pressure_at_def pressure_eos_def
      displacement_def kernelGradient_def)

text \<open>
  C1, as the specification states it, fails: for the two example particles with
  densities 2 and 1 (pressures 1 and 0) the formula with particle \<open>i\<close>'s own density and
  pressure gives \<open>exp(-1/2)/\<surd>(2\<pi>)\<close> for the x-component at particle 0, and
  \<open>eval_pressure_grad\<close> returns 0 there.
\<close>

theorem pressure_grad_own_factors_counterexample:
  "elem_at (eval_pressure_grad two_particles (arr1 [2, 1])) [0, 0] = Some 0 \<and>
   spec_pressureGrad two_particles (arr1 [2, 1]) 0 0 = exp (- 1 / 2) / sqrt (2 * pi) \<and>
   elem_at (eval_pressure_grad two_particles (arr1 [2, 1])) [0, 0] \<noteq>
     Some (spec_pressureGrad two_particles (arr1 [2, 1]) 0 0)"
proof -
  obtain gr where gr: "eval_pressure_grad two_particles (arr1 [2, 1]) = Inr gr"
     "\<forall>i<2. \<forall>c<2. elems gr [i, c] =
        (\<Sum>j<2. elems (arr1 [2, 1]) [j] * elems (masses two_particles) [j] *
           (pressure_at two_particles (arr1 [2, 1]) j / (elems (arr1 [2, 1]) [j])\<^sup>2 +
            pressure_at two_particles (arr1 [2, 1]) j / (elems (arr1 [2, 1]) [j])\<^sup>2) *
           coord (kernelGradient (displacement two_particles i j) (h two_particles)) c)"
    using eval_pressure_grad_spec [of two_particles 2 "arr1 [2, 1]"]
    by (auto simp: two_particles_def all_less_2)
  have code: "elem_at (eval_pressure_grad two_particles (arr1 [2, 1])) [0, 0] = Some 0"
    using gr
    by (simp add: elem_at_def two_particles_def all_less_2 sum_less_2 pressure_at_def
        pressure_eos_def displacement_def kernelGradient_def)
  have spec: "spec_pressureGrad two_particles (arr1 [2, 1]) 0 0 = exp (- 1 / 2) / sqrt (2 * pi)"
    by (simp add: spec_pressureGrad_def two_particles_def pressure_at_def pressure_eos_def
        displacement_def kernelGradient_def)
  have "exp (- 1 / 2) / sqrt (2 * pi) \<noteq> (0::real)"
    by simp
  with code spec show ?thesis
    by simp
qed

text \<open>
  C1, amended. For \<open>N\<close> particles with nonzero densities and rest densities and
  \<open>h \<noteq> 0\<close>, the pressure gradient of particle \<open>i\<close> is
  \<open>\<Sum>\<^sub>j density\<^sub>j \<cdot> mass\<^sub>j \<cdot> (pressure\<^sub>j/density\<^sub>j\<^sup>2 + pressure\<^sub>j/density\<^sub>j\<^sup>2) \<cdot> \<nabla>W(position\<^sub>i - position\<^sub>j, h)\<close>:
  both addends of the bracket are the same, and they are the neighbour's
  pressure over the neighbour's squared density; the bracket varies with \<open>j\<close>.
\<close>

theorem pressure_grad_both_addends_neighbour:
  assumes "shape (positions p) = [N, 2]" "shape (masses p) = [N]" "h p \<noteq> 0"
    "shape densities = [N]" "shape (rest_densities p) = [N]"
    "\<forall>j<N. elems (rest_densities p) [j] \<noteq> 0" "\<forall>j<N. elems densities [j] \<noteq> 0"
    "i < N" "c < 2"
  shows "elem_at (eval_pressure_grad p densities) [i, c] =
       Some (\<Sum>j<N. elems densities [j] * elems (masses p) [j] *
          (pressure_at p densities j / (elems densities [j])\<^sup>2 +
           pressure_at p densities j / (elems densities [j])\<^sup>2) *
          coord (kernelGradient (displacement p i j) (h p)) c)"
proof -
  obtain gr where gr: "eval_pressure_grad p densities = Inr gr"
     "\<forall>i<N. \<forall>c<2. elems gr [i, c] =
        (\<Sum>j<N. elems densities [j] * elems (masses p) [j] *
           (pressure_at p densities j / (elems densities [j])\<^sup>2 +
            pressure_at p densities j / (elems densities [j])\<^sup>2) *
           coord (kernelGradient (displacement p i j) (h p)) c)"
    using eval_pressure_grad_spec [OF assms(1-7)] by blast
  show ?thesis
    using gr assms(8,9) by (simp add: elem_at_def)
qed

theorem pressure_grad_both_addends_neighbour_witness:
  "elem_at (eval_pressure_grad two_particles (arr1 [2, 1])) [1, 1] = Some 0 \<and>
   elem_at (eval_pressure_grad two_particles (arr1 [1, 2])) [0, 0] =
     Some (exp (- 1 / 2) / sqrt (2 * pi))"
  using pressure_grad_both_addends_neighbour [of two_particles 2 "arr1 [2, 1]" 1 1]
    pressure_grad_both_addends_neighbour [of two_particles 2 "arr1 [1, 2]" 0 0]
  by (simp add: two_particles_def all_less_2 sum_less_2 pressure_at_def pressure_eos_def
      displacement_def kernelGradient_def)

text \<open>
  C4, as the specification states it, fails where the stiffness is negative: with
  \<open>k = -1\<close>, density 2 and rest density 1 the pressure is \<open>-1\<close>.
\<close>

theorem eval_pressure_negative_counterexample:
  "elem_at (eval_pressure negative_stiffness (arr1 [2, 1])) [0] = Some (- 1)"
proof -
  obtain pr where pr: "eval_pressure negative_stiffness (arr1 [2, 1]) = Inr pr"
      "\<forall>i<2. elems pr [i] = pressure_at negative_stiffness (arr1 [2, 1]) i"
    using eval_pressure_spec [of "arr1 [2, 1]" 2 negative_stiffness]
    by (auto simp: negative_stiffness_def two_particles_def all_less_2)
  then show ?thesis
    by (simp add: elem_at_def all_less_2 pressure_at_def pressure_eos_def negative_stiffness_def
        two_particles_def)
qed

text \<open>
  C4, amended. For nonzero rest densities the pressure of particle \<open>i\<close> is
  \<open>k \<cdot> max(density\<^sub>i / restDensity\<^sub>i - 1, 0)\<close>, and it is \<open>\<ge> 0\<close> whenever \<open>k \<ge> 0\<close>.
\<close>

theorem eval_pressure_equation_of_state:
  assumes "shape densities = [N]" "shape (rest_densities p) = [N]"
    "\<forall>j<N. elems (rest_densities p) [j] \<noteq> 0" "i < N"
  shows "elem_at (eval_pressure p densities) [i] =
       Some (k p * max (elems densities [i] / elems (rest_densities p) [i] - 1) 0) \<and>
     (0 \<le> k p \<longrightarrow> 0 \<le> k p * max (elems densities [i] / elems (rest_densities p) [i] - 1) 0)"
proof -
  obtain pr where pr: "eval_pressure p densities = Inr pr"
      "\<forall>i<N. elems pr [i] = pressure_at p densities i"
    using eval_pressure_spec [OF assms(1,2,3)] by blast
  then show ?thesis
    using assms(4) by (simp add: elem_at_def pressure_at_def pressure_eos_def)
qed

theorem eval_pressure_equation_of_state_witness:
  "elem_at (eval_pressure two_particles (arr1 [3, 1 / 2])) [0] = Some 2 \<and>
   elem_at (eval_pressure two_particles (arr1 [3, 1 / 2])) [1] = Some 0 \<and>
   (0::real) \<le> 2"
  using eval_pressure_equation_of_state [of "arr1 [3, 1 / 2]" 2 two_particles 0]
    eval_pressure_equation_of_state [of "arr1 [3, 1 / 2]" 2 two_particles 1]
  by (simp add: two_particles_def all_less_2)

section \<open>Construction\<close>

lemma reconstruct_density_fails:
  assumes "shape (positions p) = [N, 2]" "shape (masses p) = [M]" "h p \<noteq> 0"
    "M \<noteq> N" "M \<noteq> 1" "N \<noteq> 1"
  shows "reconstruct_density p = Inl ValueError"
proof -
  obtain pi pj pd where pd: "newaxis_at 1 2 (positions p) = Inr pi" "newaxis_at 0 2 (positions p) = Inr pj"
      "np_sub pi pj = Inr pd" "shape pd = [N, N, 2]"
    using positions_diff_spec [OF assms(1)] by blast
  obtain w where w: "gaussian pd (h p) = Inr w" "shape w = [N, N]"
    using gaussian_spec [OF pd(4) assms(3)] by blast
  show ?thesis
    using pd w assms(2,4,5,6)
    by (simp add: reconstruct_density_def newaxis_at_def np_mul_def np_binop_def broadcast_shapes_def)
qed

lemma reconstruct_density_succeeds:
  assumes "shape (positions p) = [N, 2]" "shape (masses p) = [M]" "h p \<noteq> 0"
    "M = N \<or> M = 1 \<or> N = 1"
  shows "\<exists>rho. reconstruct_density p = Inr rho \<and> shape rho = [N]"
proof -
  obtain pi pj pd where pd: "newaxis_at 1 2 (positions p) = Inr pi" "newaxis_at 0 2 (positions p) = Inr pj"
      "np_sub pi pj = Inr pd" "shape pd = [N, N, 2]"
    using positions_diff_spec [OF assms(1)] by blast
  obtain w where w: "gaussian pd (h p) = Inr w" "shape w = [N, N]"
    using gaussian_spec [OF pd(4) assms(3)] by blast
  show ?thesis
    using pd w assms(2,4)
    by (auto simp add: reconstruct_density_def newaxis_at_def np_mul_def np_binop_def
        broadcast_shapes_def np_sum_def)
qed

lemma reconstruct_density_reads:
  "positions q = positions p \<Longrightarrow> masses q = masses p \<Longrightarrow> h q = h p \<Longrightarrow>
   reconstruct_density q = reconstruct_density p"
  by (simp add: reconstruct_density_def)

lemma ParticleList_init_succeeds:
  assumes "shape pos = [N, 2]" "shape ms = [M]" "hh \<noteq> 0" "M = N \<or> M = 1 \<or> N = 1"
  shows "\<exists>p. ParticleList_init ms pos vel hh kk nf = Inr p \<and> masses p = ms \<and> positions p = pos \<and>
     velocities p = vel \<and> num_fluid_particles p = nf \<and> num_particles p = N"
proof -
  let ?self = "\<lparr>masses = ms, positions = pos, velocities = vel, h = hh, k = kk,
     num_particles = N, num_fluid_particles = nf, rest_densities = arr1 []\<rparr>"
  have "\<exists>rho. reconstruct_density ?self = Inr rho"
    using reconstruct_density_succeeds [of ?self N M] assms by auto
  then show ?thesis
    using assms(1) by (auto simp: ParticleList_init_def)
qed

lemma ParticleList_init_fails:
  assumes "shape pos = [N, 2]" "shape ms = [M]" "hh \<noteq> 0" "M \<noteq> N" "M \<noteq> 1" "N \<noteq> 1"
  shows "ParticleList_init ms pos vel hh kk nf = Inl ValueError"
proof -
  let ?self = "\<lparr>masses = ms, positions = pos, velocities = vel, h = hh, k = kk,
     num_particles = N, num_fluid_particles = nf, rest_densities = arr1 []\<rparr>"
  have "reconstruct_density ?self = Inl ValueError"
    using reconstruct_density_fails [of ?self N M] assms by simp
  then show ?thesis
    using assms(1) by (simp add: ParticleList_init_def)
qed

text \<open>
  C8, as the specification states it, fails: the constructor accepts two positions with
  one velocity and a fluid count of 5, and two positions with a single mass.
\<close>

theorem construction_accepts_inconsistent_counterexample:
  "\<not> isl (ParticleList_init (arr1 [1, 1]) (vecs [(0, 0), (1, 0)]) (vecs [(0, 0)]) 1 1 5) \<and>
   \<not> isl (ParticleList_init (arr1 [1]) (vecs [(0, 0), (1, 0)]) (vecs [(0, 0), (0, 0)]) 1 1 2)"
  using ParticleList_init_succeeds [of "vecs [(0, 0), (1, 0)]" 2 "arr1 [1, 1]" 2 1 "vecs [(0, 0)]" 1 5]
    ParticleList_init_succeeds [of "vecs [(0, 0), (1, 0)]" 2 "arr1 [1]" 1 1 "vecs [(0, 0), (0, 0)]" 1 2]
  by auto

text \<open>
  C8, amended. The constructor validates nothing itself. For positions of shape \<open>(N, 2)\<close>,
  \<open>M\<close> masses and \<open>h \<noteq> 0\<close> it succeeds, for every velocities array and every fluid count,
  when \<open>M = N\<close>, \<open>M = 1\<close> or \<open>N = 1\<close>, and stores its arguments unchanged; otherwise it fails,
  before any step, with the ValueError of numpy's broadcasting in the density estimator.
\<close>

theorem construction_fails_only_on_broadcast:
  assumes "shape pos = [N, 2]" "shape ms = [M]" "hh \<noteq> 0"
  shows "(M = N \<or> M = 1 \<or> N = 1 \<longrightarrow>
       (\<exists>p. ParticleList_init ms pos vel hh kk nf = Inr p \<and> masses p = ms \<and> positions p = pos \<and>
          velocities p = vel \<and> num_fluid_particles p = nf \<and> num_particles p = N)) \<and>
     (M \<noteq> N \<and> M \<noteq> 1 \<and> N \<noteq> 1 \<longrightarrow> ParticleList_init ms pos vel hh kk nf = Inl ValueError)"
  using ParticleList_init_succeeds [OF assms] ParticleList_init_fails [OF assms]
  by blast

theorem construction_fails_only_on_broadcast_witness:
  "(\<exists>p. ParticleList_init (arr1 [1, 1]) (vecs [(0, 0), (1, 0)]) (vecs []) 1 1 7 = Inr p \<and>
      velocities p = vecs [] \<and> num_fluid_particles p = 7 \<and> num_particles p = 2) \<and>
   ParticleList_init (arr1 [1, 1, 1]) (vecs [(0, 0), (1, 0)]) (vecs []) 1 1 7 = Inl ValueError"
  using construction_fails_only_on_broadcast [of "vecs [(0, 0), (1, 0)]" 2 "arr1 [1, 1]" 2 1 "vecs []" 1 7]
    construction_fails_only_on_broadcast [of "vecs [(0, 0), (1, 0)]" 2 "arr1 [1, 1, 1]" 3 1 "vecs []" 1 7]
  by auto

section \<open>Invariants of the driver loop\<close>

lemma slice_bound_nat: "slice_bound (int F) N = min F N"
  by (simp add: slice_bound_def)

lemma timestep_boundary:
  assumes "timestep p g dt = Inr p'" "shape (positions p) = len # rest"
    "slice_bound (num_fluid_particles p) len \<le> i"
  shows "shape (positions p') = shape (positions p)"
    and "elems (positions p') (i # idx) = elems (positions p) (i # idx)"
proof -
  obtain vel where "update_positions p vel dt = Inr (positions p')"
    using timestep_positions [OF assms(1)] by blast
  from update_positions_frame [OF this assms(2)] assms(3)
  show "shape (positions p') = shape (positions p)"
    and "elems (positions p') (i # idx) = elems (positions p) (i # idx)"
    by simp_all
qed

lemma run_frames_boundary:
  assumes "run_frames n p g dt fd = Inr (p', fd')" "shape (positions p) = len # rest"
    "slice_bound (num_fluid_particles p) len \<le> i"
  shows "shape (positions p') = shape (positions p) \<and>
     elems (positions p') (i # idx) = elems (positions p) (i # idx) \<and>
     num_fluid_particles p' = num_fluid_particles p \<and> rest_densities p' = rest_densities p \<and>
     length fd' = length fd + n \<and> take (length fd) fd' = fd \<and>
     (\<forall>f\<in>set (drop (length fd) fd'). shape f = shape (positions p) \<and>
        elems f (i # idx) = elems (positions p) (i # idx))"
  using assms
proof (induction n arbitrary: p fd)
  case 0
  then show ?case by simp
next
  case (Suc n)
  from Suc.prems(1) obtain q where q: "timestep p g dt = Inr q"
      "run_frames n q g dt (fd @ [positions q]) = Inr (p', fd')"
    by (auto simp: rbind_def split: sum.splits)
  have same: "shape (positions q) = shape (positions p)"
      "elems (positions q) (i # idx) = elems (positions p) (i # idx)"
    using timestep_boundary [OF q(1) Suc.prems(2,3)] by simp_all
  have fields: "num_fluid_particles q = num_fluid_particles p" "rest_densities q = rest_densities p"
    using timestep_fields [OF q(1)] by simp_all
  have ih: "shape (positions p') = shape (positions q) \<and>
     elems (positions p') (i # idx) = elems (positions q) (i # idx) \<and>
     num_fluid_particles p' = num_fluid_particles q \<and> rest_densities p' = rest_densities q \<and>
     length fd' = length (fd @ [positions q]) + n \<and>
     take (length (fd @ [positions q])) fd' = fd @ [positions q] \<and>
     (\<forall>f\<in>set (drop (length (fd @ [positions q])) fd'). shape f = shape (positions q) \<and>
        elems f (i # idx) = elems (positions q) (i # idx))"
    using Suc.IH [OF q(2)] Suc.prems(2,3) same(1) fields(1) by simp
  have tk: "take (length fd) fd' = fd"
    using ih by (metis append_eq_conv_conj length_append_singleton take_Suc_conv_app_nth take_all_iff
        butlast_snoc butlast_take diff_Suc_1 le_add1 length_append)
  have dr: "drop (length fd) fd' = positions q # drop (Suc (length fd)) fd'"
    using ih by (metis append_eq_conv_conj append_Cons append_Nil length_append_singleton
        append_assoc append_take_drop_id)
  show ?case
    using ih same fields tk dr by auto
qed

lemma two_particles_well_formed: "well_formed two_particles 2"
  by (simp add: well_formed_def two_particles_def list_all_upt all_less_2)

text \<open>
  C5. After any number \<open>K\<close> of steps the rows \<open>positions[F:N]\<close> of the particle set are
  the ones it started with, in the final state and in every frame recorded on the way;
  one position update (for any velocities) writes only the rows \<open>[0, F)\<close>. The bound of
  the slice is Python's: \<open>slice_bound F N\<close>, which is \<open>F\<close> for \<open>0 \<le> F \<le> N\<close>. On a
  well-formed state the loop does return, for every \<open>K\<close>.
\<close>

theorem boundary_positions_invariant:
  assumes "shape (positions p) = [N, 2]"
    "slice_bound (num_fluid_particles p) N \<le> i" "i < N" "c < 2"
  shows "(\<forall>p' fd'. run_frames K p g dt fd = Inr (p', fd') \<longrightarrow>
       shape (positions p') = [N, 2] \<and>
       elems (positions p') [i, c] = elems (positions p) [i, c] \<and>
       length fd' = length fd + K \<and>
       (\<forall>f\<in>set (drop (length fd) fd'). elems f [i, c] = elems (positions p) [i, c])) \<and>
     (\<forall>vel x. update_positions p vel dt = Inr x \<longrightarrow> elems x [i, c] = elems (positions p) [i, c]) \<and>
     (\<forall>F. num_fluid_particles p = int F \<and> F \<le> N \<longrightarrow> slice_bound (num_fluid_particles p) N = F) \<and>
     (well_formed p N \<and> shape g = [2] \<longrightarrow> (\<exists>p' fd'. run_frames K p g dt fd = Inr (p', fd')))"
proof -
  have A: "\<forall>p' fd'. run_frames K p g dt fd = Inr (p', fd') \<longrightarrow>
       shape (positions p') = [N, 2] \<and>
       elems (positions p') [i, c] = elems (positions p) [i, c] \<and>
       length fd' = length fd + K \<and>
       (\<forall>f\<in>set (drop (length fd) fd'). elems f [i, c] = elems (positions p) [i, c])"
  proof (intro allI impI)
    fix p' fd'
    assume run: "run_frames K p g dt fd = Inr (p', fd')"
    from run_frames_boundary [OF run assms(1,2), of "[c]"] assms(1)
    show "shape (positions p') = [N, 2] \<and>
       elems (positions p') [i, c] = elems (positions p) [i, c] \<and>
       length fd' = length fd + K \<and>
       (\<forall>f\<in>set (drop (length fd) fd'). elems f [i, c] = elems (positions p) [i, c])"
      by simp
  qed
  have B: "\<forall>vel x. update_positions p vel dt = Inr x \<longrightarrow> elems x [i, c] = elems (positions p) [i, c]"
    using update_positions_frame(2) [OF _ assms(1,2)] by blast
  have C: "\<forall>F. num_fluid_particles p = int F \<and> F \<le> N \<longrightarrow>
      slice_bound (num_fluid_particles p) N = F"
    by (simp add: slice_bound_nat)
  have D: "well_formed p N \<and> shape g = [2] \<longrightarrow>
      (\<exists>p' fd'. run_frames K p g dt fd = Inr (p', fd'))"
    using run_frames_total [of p N g K dt fd] by blast
  show ?thesis
    by (rule conjI [OF A conjI [OF B conjI [OF C D]]])
qed

theorem boundary_positions_invariant_witness:
  "\<exists>p' fd'. run_frames 3 two_particles (arr1 [0, - 1]) (1 / 50) [] = Inr (p', fd') \<and>
     shape (positions p') = [2, 2] \<and>
     elems (positions p') [1, 0] = 1 \<and> elems (positions p') [1, 1] = 0 \<and>
     length fd' = 3 \<and> elems (fd' ! 0) [1, 0] = 1 \<and> elems (fd' ! 2) [1, 0] = 1"
proof -
  have sh: "shape (positions two_particles) = [2, 2]"
    by (simp add: two_particles_def)
  have F: "slice_bound (num_fluid_particles two_particles) 2 \<le> 1"
    by (simp add: two_particles_def slice_bound_def)
  have i: "(1::nat) < 2" and c0: "(0::nat) < 2"
    by simp_all
  have g: "shape (arr1 [0, - 1]) = [2]"
    by simp
  note t0 = boundary_positions_invariant [OF sh F i c0, of 3 "arr1 [0, - 1]" "1 / 50" "[]"]
  note t1 = boundary_positions_invariant [OF sh F i i, of 3 "arr1 [0, - 1]" "1 / 50" "[]"]
  have "\<exists>p' fd'. run_frames 3 two_particles (arr1 [0, - 1]) (1 / 50) [] = Inr (p', fd')"
    using t0 [THEN conjunct2, THEN conjunct2, THEN conjunct2] two_particles_well_formed g
    by simp
  then obtain p' fd' where run: "run_frames 3 two_particles (arr1 [0, - 1]) (1 / 50) [] = Inr (p', fd')"
    by auto
  have x: "shape (positions p') = [2, 2] \<and>
     elems (positions p') [1, 0] = elems (positions two_particles) [1, 0] \<and>
     length fd' = 3 \<and>
     (\<forall>f\<in>set fd'. elems f [1, 0] = elems (positions two_particles) [1, 0])"
    using t0 [THEN conjunct1, rule_format, OF run] by simp
  have y: "elems (positions p') [1, 1] = elems (positions two_particles) [1, 1]"
    using t1 [THEN conjunct1, rule_format, OF run] by simp
  from x have "length fd' = 3" by simp
  then have "fd' ! 0 \<in> set fd'" "fd' ! 2 \<in> set fd'"
    by simp_all
  with x y run show ?thesis
    by (auto simp: two_particles_def)
qed

lemma ParticleList_init_rest:
  assumes "ParticleList_init ms pos vel hh kk nf = Inr p"
  shows "reconstruct_density p = Inr (rest_densities p) \<and> masses p = ms \<and> positions p = pos \<and>
     velocities p = vel \<and> h p = hh \<and> k p = kk \<and> num_fluid_particles p = nf"
proof (cases "shape pos")
  case Nil
  with assms show ?thesis by (simp add: ParticleList_init_def)
next
  case (Cons n rest)
  let ?self = "\<lparr>masses = ms, positions = pos, velocities = vel, h = hh, k = kk,
     num_particles = n, num_fluid_particles = nf, rest_densities = arr1 []\<rparr>"
  from assms Cons obtain rho where rho: "reconstruct_density ?self = Inr rho"
      "p = ?self\<lparr>rest_densities := rho\<rparr>"
    by (auto simp: ParticleList_init_def rbind_def split: sum.splits)
  have "reconstruct_density p = reconstruct_density ?self"
    using rho(2) by (intro reconstruct_density_reads) simp_all
  with rho show ?thesis by simp
qed

text \<open>
  C6. The rest densities are what the density estimator returns for the constructor's
  arguments, and no step writes them: after any number of steps the array is the one
  the constructor stored. For consistent shapes, \<open>h > 0\<close> and positive masses the
  constructor and every number of steps do return.
\<close>

theorem rest_densities_write_once:
  shows "(\<forall>p p' fd'. ParticleList_init ms pos vel hh kk nf = Inr p \<and>
         run_frames K p g dt fd = Inr (p', fd') \<longrightarrow>
       reconstruct_density p = Inr (rest_densities p) \<and>
       positions p = pos \<and> masses p = ms \<and> h p = hh \<and>
       rest_densities p' = rest_densities p) \<and>
     (shape pos = [N, 2] \<and> shape vel = [N, 2] \<and> shape ms = [N] \<and> 0 < hh \<and>
       (\<forall>i<N. 0 < elems ms [i]) \<and> shape g = [2] \<longrightarrow>
       (\<exists>p p' fd'. ParticleList_init ms pos vel hh kk nf = Inr p \<and>
          run_frames K p g dt fd = Inr (p', fd')))"
proof (intro conjI allI impI)
  fix p p' fd'
  assume a: "ParticleList_init ms pos vel hh kk nf = Inr p \<and> run_frames K p g dt fd = Inr (p', fd')"
  have init: "reconstruct_density p = Inr (rest_densities p) \<and> masses p = ms \<and> positions p = pos \<and>
     velocities p = vel \<and> h p = hh \<and> k p = kk \<and> num_fluid_particles p = nf"
    using ParticleList_init_rest a by blast
  have "rest_densities p' = rest_densities p"
  proof (cases "shape pos")
    case Nil
    with a show ?thesis by (simp add: ParticleList_init_def)
  next
    case (Cons n rest)
    then have "shape (positions p) = n # rest"
      using init by simp
    from run_frames_boundary [OF _ this, of K g dt fd p' fd' "slice_bound (num_fluid_particles p) n" "[]"] a
    show ?thesis by simp
  qed
  with init show "reconstruct_density p = Inr (rest_densities p)" "positions p = pos"
      "masses p = ms" "h p = hh" "rest_densities p' = rest_densities p"
    by simp_all
next
  assume b: "shape pos = [N, 2] \<and> shape vel = [N, 2] \<and> shape ms = [N] \<and> 0 < hh \<and>
       (\<forall>i<N. 0 < elems ms [i]) \<and> shape g = [2]"
  then obtain p where p: "ParticleList_init ms pos vel hh kk nf = Inr p" "well_formed p N"
    using init_total [of pos N vel ms hh kk nf] by blast
  obtain p' fd' where "run_frames K p g dt fd = Inr (p', fd')"
    using run_frames_total [OF p(2), of g K dt fd] b by blast
  with p(1) show "\<exists>p p' fd'. ParticleList_init ms pos vel hh kk nf = Inr p \<and>
          run_frames K p g dt fd = Inr (p', fd')"
    by blast
qed

theorem rest_densities_write_once_witness:
  "\<exists>p p' fd'. ParticleList_init (arr1 [1, 1]) (vecs [(0, 0), (1, 0)]) (vecs [(0, 0), (0, 0)]) 1 1 1 = Inr p \<and>
     run_frames 3 p (arr1 [0, - 1]) (1 / 50) [] = Inr (p', fd') \<and>
     reconstruct_density p = Inr (rest_densities p) \<and> rest_densities p' = rest_densities p"
proof -
  note t = rest_densities_write_once [of "arr1 [1, 1]" "vecs [(0, 0), (1, 0)]" "vecs [(0, 0), (0, 0)]"
      1 1 1 3 "arr1 [0, - 1]" "1 / 50" "[]" 2]
  have "shape (vecs [(0, 0), (1, 0)]) = [2, 2] \<and> shape (vecs [(0, 0), (0, 0)]) = [2, 2] \<and>
      shape (arr1 [1, 1]) = [2] \<and> (0::real) < 1 \<and> (\<forall>i<2. 0 < elems (arr1 [1, 1]) [i]) \<and>
      shape (arr1 [0, - 1]) = [2]"
    by (simp add: all_less_2)
  with t obtain p p' fd' where
      "ParticleList_init (arr1 [1, 1]) (vecs [(0, 0), (1, 0)]) (vecs [(0, 0), (0, 0)]) 1 1 1 = Inr p \<and>
       run_frames 3 p (arr1 [0, - 1]) (1 / 50) [] = Inr (p', fd')"
    by blast
  with t show ?thesis
    by blast
qed

section \<open>Quiescence\<close>

lemma np_div_NonFinite:
  assumes "broadcast_shapes (shape a) (shape b) = Some s" "list_all2 (<) idx s"
    "elems b (proj (shape b) idx) = 0"
  shows "np_div a b = Inl NonFinite"
  using assms by (auto simp: np_div_def list_ex_iff in_indices)

lemma apply_pressure_force_zero_mass:
  assumes "shape vel = [N, 2]" "shape densities = [N]" "shape grads = [N, 2]"
    "shape (masses p) = [N]"
    "\<forall>i<N. elems densities [i] \<noteq> 0" "i < N" "elems (masses p) [i] = 0"
  shows "apply_pressure_force p vel densities grads dt = Inl NonFinite"
proof -
  obtain d_col where d_col: "newaxis_at 1 1 densities = Inr d_col" "shape d_col = [N, 1]"
      "\<forall>i. elems d_col [i, 0] = elems densities [i]"
    using column_ex [OF assms(2)] by blast
  obtain m_col where m_col: "newaxis_at 1 1 (masses p) = Inr m_col" "shape m_col = [N, 1]"
      "\<forall>i. elems m_col [i, 0] = elems (masses p) [i]"
    using column_ex [OF assms(4)] by blast
  have dnz: "\<forall>i<N. elems d_col [i, 0] \<noteq> 0"
    using d_col(3) assms(5) by simp
  obtain inv where inv: "np_div (scalar (- 1)) d_col = Inr inv" "shape inv = [N, 1]"
    using np_div_ex [of "scalar (- 1)" d_col "[N, 1]"]
      column_nonzero [OF d_col(2) dnz, of _ 1] d_col(2)
    by (auto simp: scalar_def broadcast_shapes_def)
  obtain force where force: "np_mul inv grads = Inr force" "shape force = [N, 2]"
    using np_binop_ex [of inv grads "[N, 2]" "(*)"] inv(2) assms(3)
    by (auto simp: np_mul_def broadcast_shapes_def)
  obtain impulse where impulse: "np_mul (scalar dt) force = Inr impulse" "shape impulse = [N, 2]"
    using np_binop_ex [of "scalar dt" force "[N, 2]" "(*)"] force(2)
    by (auto simp: np_mul_def broadcast_shapes_def scalar_def)
  have "np_div impulse m_col = Inl NonFinite"
  proof (rule np_div_NonFinite)
    show "broadcast_shapes (shape impulse) (shape m_col) = Some [N, 2]"
      using impulse(2) m_col(2) by (simp add: broadcast_shapes_def)
    show "list_all2 (<) [i, 0] [N, 2]"
      using assms(6) by simp
    show "elems m_col (proj (shape m_col) [i, 0]) = 0"
      using m_col(2,3) assms(6,7) by (simp add: proj_def)
  qed
  then show ?thesis
    using d_col(1) m_col(1) inv(1) force(1) impulse(1)
    by (simp add: apply_pressure_force_def)
qed

text \<open>
  C9, as the specification states it, fails on a massless particle. In the example
  every computed density equals the rest density and gravity is zero, yet the step
  divides the massless particle's impulse by its mass: numpy stores \<open>nan\<close> as its new
  velocity, and the model stops.
\<close>

theorem quiescence_massless_counterexample:
  "elem_at (reconstruct_density massless) [0] = Some (elems (rest_densities massless) [0]) \<and>
   elem_at (reconstruct_density massless) [1] = Some (elems (rest_densities massless) [1]) \<and>
   timestep massless (arr1 [0, 0]) 1 = Inl NonFinite"
proof -
  have sh: "shape (positions massless) = [2, 2]" "shape (masses massless) = [2]"
      "shape (velocities massless) = [2, 2]" "shape (rest_densities massless) = [2]"
      "h massless \<noteq> 0"
    by (simp_all add: massless_def)
  obtain rho where rho: "reconstruct_density massless = Inr rho" "shape rho = [2]"
      "\<forall>i<2. elems rho [i] =
        (\<Sum>j<2. elems (masses massless) [j] * kernelValue (displacement massless i j) (h massless))"
    using reconstruct_density_spec [OF sh(1,2,5)] by blast
  have vals: "elems rho [0] = 1 / sqrt (2 * pi)" "elems rho [Suc 0] = exp (- 1 / 2) / sqrt (2 * pi)"
    using rho(3)
    by (simp_all add: all_less_2 sum_less_2 massless_def displacement_def kernelValue_def)
  have rest: "elems (rest_densities massless) [0] = 1 / sqrt (2 * pi)"
      "elems (rest_densities massless) [Suc 0] = exp (- 1 / 2) / sqrt (2 * pi)"
    by (simp_all add: massless_def)
  have rho_nz: "\<forall>i<2. elems rho [i] \<noteq> 0"
    using vals by (simp add: all_less_2)
  have rest_nz: "\<forall>i<2. elems (rest_densities massless) [i] \<noteq> 0"
    using rest by (simp add: all_less_2)
  obtain gr where gr: "eval_pressure_grad massless rho = Inr gr" "shape gr = [2, 2]"
    using eval_pressure_grad_spec [OF sh(1,2,5) rho(2) sh(4) rest_nz rho_nz] by blast
  obtain v1 where v1: "apply_gravity_force massless (arr1 [0, 0]) 1 = Inr v1" "shape v1 = [2, 2]"
    using apply_gravity_force_spec [OF sh(3), of "arr1 [0, 0]" 1] by auto
  have "apply_pressure_force massless v1 rho gr 1 = Inl NonFinite"
    using apply_pressure_force_zero_mass [OF v1(2) rho(2) gr(2) sh(2) rho_nz, of 1 1]
    by (simp add: massless_def)
  then have "timestep massless (arr1 [0, 0]) 1 = Inl NonFinite"
    using rho(1) gr(1) v1(1) by (simp add: timestep_def)
  then show ?thesis
    using rho(1) vals rest by (simp add: elem_at_def)
qed

text \<open>
  C9, amended. In a state with \<open>h \<noteq> 0\<close>, nonzero masses and nonzero rest densities in
  which every computed density equals the rest density, and with zero gravity, one step
  computes zero pressure and zero pressure gradient for every particle and leaves every
  velocity as it was.
\<close>

theorem quiescence:
  assumes "shape (positions p) = [N, 2]" "shape (velocities p) = [N, 2]"
    "shape (masses p) = [N]" "shape (rest_densities p) = [N]" "shape g = [2]" "h p \<noteq> 0"
    "\<forall>j<N. elems (masses p) [j] \<noteq> 0" "\<forall>j<N. elems (rest_densities p) [j] \<noteq> 0"
    "\<forall>j<N. elem_at (reconstruct_density p) [j] = Some (elems (rest_densities p) [j])"
    "elems g [0] = 0" "elems g [1] = 0" "i < N" "c < 2"
  shows "\<exists>rho p'. reconstruct_density p = Inr rho \<and>
     elem_at (eval_pressure p rho) [i] = Some 0 \<and>
     elem_at (eval_pressure_grad p rho) [i, c] = Some 0 \<and>
     timestep p g dt = Inr p' \<and> shape (velocities p') = [N, 2] \<and>
     elems (velocities p') [i, c] = elems (velocities p) [i, c]"
proof -
  obtain rho where rho: "reconstruct_density p = Inr rho" "shape rho = [N]"
    using reconstruct_density_spec [OF assms(1,3,6)] by blast
  have eq: "\<forall>j<N. elems rho [j] = elems (rest_densities p) [j]"
    using assms(9) rho(1) by (simp add: elem_at_def)
  have rho_nz: "\<forall>j<N. elems rho [j] \<noteq> 0"
    using eq assms(8) by simp
  have zero: "\<forall>j<N. pressure_at p rho j = 0"
    using eq assms(8) by (simp add: pressure_at_def pressure_eos_def)
  obtain pr where pr: "eval_pressure p rho = Inr pr" "\<forall>j<N. elems pr [j] = pressure_at p rho j"
    using eval_pressure_spec [OF rho(2) assms(4,8)] by blast
  obtain gr where gr: "eval_pressure_grad p rho = Inr gr" "shape gr = [N, 2]"
     "\<forall>i<N. \<forall>c<2. elems gr [i, c] =
        (\<Sum>j<N. elems rho [j] * elems (masses p) [j] *
           (pressure_at p rho j / (elems rho [j])\<^sup>2 + pressure_at p rho j / (elems rho [j])\<^sup>2) *
           coord (kernelGradient (displacement p i j) (h p)) c)"
    using eval_pressure_grad_spec [OF assms(1,3,6) rho(2) assms(4,8) rho_nz] by blast
  have gr0: "\<forall>i<N. \<forall>c<2. elems gr [i, c] = 0"
    using gr(3) zero by simp
  obtain v1 where v1: "apply_gravity_force p g dt = Inr v1" "shape v1 = [N, 2]"
     "\<forall>i c. c < 2 \<longrightarrow> elems v1 [i, c] =
        (if i < slice_bound (num_fluid_particles p) N
         then elems (velocities p) [i, c] + dt * elems g [c] else elems (velocities p) [i, c])"
    using apply_gravity_force_spec [OF assms(2,5)] by blast
  have g0: "\<forall>c<2. elems g [c] = 0"
    using assms(10,11) by (simp add: all_less_2)
  have v1_same: "\<forall>i. \<forall>c<2. elems v1 [i, c] = elems (velocities p) [i, c]"
    using v1(3) g0 by simp
  obtain v where v: "apply_pressure_force p v1 rho gr dt = Inr v" "shape v = [N, 2]"
     "\<forall>i<N. \<forall>c<2. elems v [i, c] =
        elems v1 [i, c] + dt * (- 1 / elems rho [i] * elems gr [i, c]) / elems (masses p) [i]"
    using apply_pressure_force_spec [OF v1(2) rho(2) gr(2) assms(3) rho_nz assms(7)] by blast
  have v_same: "elems v [i, c] = elems (velocities p) [i, c]"
    using v(3) gr0 v1_same assms(12,13) by simp
  obtain x where x: "update_positions p v dt = Inr x"
    using update_positions_spec [OF assms(1) v(2)] by blast
  have step: "timestep p g dt = Inr (p\<lparr>positions := x, velocities := v\<rparr>)"
    using rho(1) gr(1) v1(1) v(1) x by (simp add: timestep_def)
  show ?thesis
    using rho(1) pr zero gr(1) gr0 step v(2) v_same assms(12,13)
    by (simp add: elem_at_def)
qed

theorem quiescence_witness:
  "\<exists>p rho p'. ParticleList_init (arr1 [1, 2]) (vecs [(0, 0), (1, 0)]) (vecs [(1, 2), (3, 4)]) 1 1 1 = Inr p \<and>
     reconstruct_density p = Inr rho \<and> rho = rest_densities p \<and>
     elem_at (eval_pressure p rho) [0] = Some 0 \<and>
     elem_at (eval_pressure_grad p rho) [0, 1] = Some 0 \<and>
     timestep p (arr1 [0, 0]) (1 / 50) = Inr p' \<and> shape (velocities p') = [2, 2] \<and>
     elems (velocities p') [0, 1] = 2"
proof -
  obtain p where p: "ParticleList_init (arr1 [1, 2]) (vecs [(0, 0), (1, 0)]) (vecs [(1, 2), (3, 4)]) 1 1 1 = Inr p"
      "well_formed p 2" "velocities p = vecs [(1, 2), (3, 4)]"
    using init_total [of "vecs [(0, 0), (1, 0)]" 2 "vecs [(1, 2), (3, 4)]" "arr1 [1, 2]" 1 1 1]
    by (auto simp: all_less_2)
  have rest: "reconstruct_density p = Inr (rest_densities p)"
    using ParticleList_init_rest [OF p(1)] by simp
  from p(2) have wf: "shape (positions p) = [2, 2]" "shape (velocities p) = [2, 2]"
      "shape (masses p) = [2]" "shape (rest_densities p) = [2]" "h p \<noteq> 0"
      "\<forall>j<2. elems (masses p) [j] \<noteq> 0" "\<forall>j<2. elems (rest_densities p) [j] \<noteq> 0"
    by (auto simp: well_formed_def less_2_cases_iff)
  have same: "\<forall>j<2. elem_at (reconstruct_density p) [j] = Some (elems (rest_densities p) [j])"
    using rest by (simp add: elem_at_def)
  have g: "shape (arr1 [0, 0]) = [2]" "elems (arr1 [0, 0]) [0] = 0" "elems (arr1 [0, 0]) [1] = 0"
    by simp_all
  have i: "(0::nat) < 2" and c: "(1::nat) < 2"
    by simp_all
  from quiescence [OF wf(1,2,3,4) g(1) wf(5,6,7) same g(2,3) i c, of "1 / 50"] rest p(1,3)
  show ?thesis
    by auto
qed

end
